theory Spec2Isabelle
  imports Main "HOL-Library.AList" "HOL-Library.Multiset" "HOL-Library.Sublist"
    "HOL-Library.Char_ord" "HOL-Library.List_Lexorder"
begin

section \<open>Python strings and POSIX paths\<close>

text \<open>
  The harness (\<^verbatim>\<open>harness/context_manager.py\<close>) builds every command and every path by
  string operations. The functions below are the Python operations it uses, on
  \<^typ>\<open>string\<close>, for a POSIX host (\<^verbatim>\<open>os.sep = "/"\<close>, \<^verbatim>\<open>os.pathsep = ":"\<close>).
\<close>

definition startswith :: "string \<Rightarrow> string \<Rightarrow> bool" where
  "startswith s p = (take (length p) s = p)"

definition endswith :: "string \<Rightarrow> string \<Rightarrow> bool" where
  "endswith s p = (drop (length s - length p) s = p \<and> length p \<le> length s)"

text \<open>\<^verbatim>\<open>s.split(sep)\<close> for a one-character separator: every occurrence splits, so two
  adjacent separators give an empty word, and the result is never empty.\<close>

fun split_where :: "(char \<Rightarrow> bool) \<Rightarrow> string \<Rightarrow> string list" where
  "split_where P [] = [[]]"
| "split_where P (c # cs) =
     (if P c then [] # split_where P cs
      else (case split_where P cs of
              [] \<Rightarrow> [[c]]
            | u # us \<Rightarrow> (c # u) # us))"

definition py_split :: "char \<Rightarrow> string \<Rightarrow> string list" where
  "py_split sep s = split_where (\<lambda>c. c = sep) s"

definition is_space :: "char \<Rightarrow> bool" where
  "is_space c = (c \<in> set [CHR '' '', CHR 0x09, CHR 0x0A, CHR 0x0B, CHR 0x0C, CHR 0x0D])"

text \<open>\<^verbatim>\<open>s.split()\<close>: runs of whitespace separate, empty words are dropped.\<close>

definition py_split_ws :: "string \<Rightarrow> string list" where
  "py_split_ws s = filter (\<lambda>u. u \<noteq> []) (split_where is_space s)"

fun py_join :: "string \<Rightarrow> string list \<Rightarrow> string" where
  "py_join sep [] = []"
| "py_join sep [x] = x"
| "py_join sep (x # y # ys) = x @ sep @ py_join sep (y # ys)"

definition rstrip :: "string \<Rightarrow> string \<Rightarrow> string" where
  "rstrip chars s = rev (dropWhile (\<lambda>c. c \<in> set chars) (rev s))"

definition strip :: "string \<Rightarrow> string \<Rightarrow> string" where
  "strip chars s = rstrip chars (dropWhile (\<lambda>c. c \<in> set chars) s)"

text \<open>\<^verbatim>\<open>repo.replace("/", "__")\<close>.\<close>

definition replace_slash :: "string \<Rightarrow> string" where
  "replace_slash s = concat (map (\<lambda>c. if c = CHR ''/'' then ''__'' else [c]) s)"

text \<open>\<^verbatim>\<open>sub in s\<close> on strings.\<close>

fun contains :: "string \<Rightarrow> string \<Rightarrow> bool" where
  "contains [] sub = (sub = [])"
| "contains (c # cs) sub = (if startswith (c # cs) sub then True else contains cs sub)"

text \<open>The text after the first occurrence of a pattern, and the text before its last
  occurrence.\<close>

fun after_first :: "string \<Rightarrow> string \<Rightarrow> string option" where
  "after_first pat [] = (if pat = [] then Some [] else None)"
| "after_first pat (c # cs) =
     (if startswith (c # cs) pat then Some (drop (length pat) (c # cs)) else after_first pat cs)"

definition before_last :: "string \<Rightarrow> string \<Rightarrow> string option" where
  "before_last pat s = map_option rev (after_first (rev pat) (rev s))"

text \<open>\<^verbatim>\<open>str(n)\<close> for a natural number, and the f-string rendering of a value that may be
  \<^verbatim>\<open>None\<close>.\<close>

function str_of_nat :: "nat \<Rightarrow> string" where
  "str_of_nat n =
     (if n < 10 then [''0123456789'' ! n]
      else str_of_nat (n div 10) @ [''0123456789'' ! (n mod 10)])"
  by pat_completeness auto
termination
  by (relation "measure id") auto

declare str_of_nat.simps [simp del]

definition fmt_opt :: "string option \<Rightarrow> string" where
  "fmt_opt x = (case x of None \<Rightarrow> ''None'' | Some s \<Rightarrow> s)"

definition fmt_opt_nat :: "nat option \<Rightarrow> string" where
  "fmt_opt_nat x = (case x of None \<Rightarrow> ''None'' | Some n \<Rightarrow> str_of_nat n)"

text \<open>\<^verbatim>\<open>posixpath.join\<close> (two components; the source's three-component calls are the
  left-nested two-component ones, as in the library's loop) and \<^verbatim>\<open>posixpath.dirname\<close>.\<close>

definition os_path_join :: "string \<Rightarrow> string \<Rightarrow> string" where
  "os_path_join a b =
     (if startswith b ''/'' then b
      else if a = [] \<or> endswith a ''/'' then a @ b
      else a @ ''/'' @ b)"

definition os_path_dirname :: "string \<Rightarrow> string" where
  "os_path_dirname p =
     (let head = rev (dropWhile (\<lambda>c. c \<noteq> CHR ''/'') (rev p))
      in if head \<noteq> [] \<and> head \<noteq> replicate (length head) (CHR ''/'')
         then rstrip ''/'' head else head)"

definition os_pathsep :: string where
  "os_pathsep = '':''"

section \<open>Exceptions, the file system and external commands\<close>

datatype exn =
    CalledProcessError int string string
  | TimeoutExpired
  | KeyError string
  | AttributeError string
  | TypeError string
  | ValueError string
  | UnicodeDecodeError string
  | FileNotFoundError string
  | FileExistsError string
  | OSError string
  | Exception string

text \<open>A command as \<^verbatim>\<open>subprocess.run\<close> receives it: one string (run with
  \<^verbatim>\<open>shell=True\<close>) or an argument list.\<close>

datatype command = CmdStr string | CmdList "string list"

text \<open>The keyword arguments of \<^verbatim>\<open>subprocess.run\<close> the harness sets. \<open>None\<close> is an
  absent key; \<open>kw_timeout = Some None\<close> is \<^verbatim>\<open>timeout=None\<close> passed explicitly.\<close>

record subprocess_kw =
  kw_check :: "bool option"
  kw_shell :: "bool option"
  kw_capture_output :: "bool option"
  kw_text :: "bool option"
  kw_env :: "(string \<rightharpoonup> string) option"
  kw_timeout :: "nat option option"

definition no_kw :: subprocess_kw where
  "no_kw = \<lparr>kw_check = None, kw_shell = None, kw_capture_output = None, kw_text = None,
            kw_env = None, kw_timeout = None\<rparr>"

definition override :: "'a option \<Rightarrow> 'a option \<Rightarrow> 'a option" where
  "override base new = (case new of None \<Rightarrow> base | Some v \<Rightarrow> Some v)"

text \<open>\<^verbatim>\<open>{**self.subprocess_args, **kwargs}\<close>: the right operand wins.\<close>

definition merge_kw :: "subprocess_kw \<Rightarrow> subprocess_kw \<Rightarrow> subprocess_kw" where
  "merge_kw base new =
     \<lparr>kw_check = override (kw_check base) (kw_check new),
      kw_shell = override (kw_shell base) (kw_shell new),
      kw_capture_output = override (kw_capture_output base) (kw_capture_output new),
      kw_text = override (kw_text base) (kw_text new),
      kw_env = override (kw_env base) (kw_env new),
      kw_timeout = override (kw_timeout base) (kw_timeout new)\<rparr>"

text \<open>
  The world the harness acts on: regular files with their contents, the directories that
  exist, the working directory of the process, and the commands handed to
  \<^verbatim>\<open>subprocess.run\<close> so far, in order. Opening the log file or the patch file is taken to
  succeed; permissions and the parents of a directory are not tracked.
\<close>

record world =
  files :: "string \<rightharpoonup> string"
  dirs :: "string set"
  cwd :: string
  trace :: "command list"

text \<open>What the operating system reports for a command: it exited with a return code,
  the bytes it wrote to its output and to its error stream, and the whole seconds it had
  been running for when it ended; or it could not be started.\<close>

datatype proc = Exited int string string nat | SpawnFailed string

record completed =
  returncode :: int
  stdout :: string
  stderr :: string

text \<open>The operating system and the Python library, as parameters: the effect and outcome
  of a command, the decoding of captured bytes in text mode (the locale's encoding, strict,
  with newlines translated; \<open>None\<close> for bytes that do not decode),
  \<^verbatim>\<open>os.path.normpath\<close>, \<^verbatim>\<open>os.environ\<close>, the name \<^verbatim>\<open>tempfile\<close> picks for a new directory,
  \<^verbatim>\<open>platform.system()\<close>, \<^verbatim>\<open>platform.machine()\<close> and \<^verbatim>\<open>str(e)\<close> of an exception.\<close>

record os_iface =
  os_run :: "command \<Rightarrow> subprocess_kw \<Rightarrow> world \<Rightarrow> proc \<times> world"
  os_decode :: "string \<Rightarrow> string option"
  os_normpath :: "string \<Rightarrow> string"
  os_environ :: "string \<rightharpoonup> string"
  os_mkdtemp :: "string option \<Rightarrow> world \<Rightarrow> string"
  platform_system :: string
  platform_machine :: string
  exn_str :: "exn \<Rightarrow> string"

text \<open>Sequencing of steps that may raise: the first exception ends the sequence, with the
  world as it was when it was raised.\<close>

definition and_then ::
  "('e + 'a) \<times> 'w \<Rightarrow> ('a \<Rightarrow> 'w \<Rightarrow> ('e + 'b) \<times> 'w) \<Rightarrow> ('e + 'b) \<times> 'w" where
  "and_then r f = (case r of (Inl e, w) \<Rightarrow> (Inl e, w) | (Inr a, w) \<Rightarrow> f a w)"

definition resolve :: "world \<Rightarrow> string \<Rightarrow> string" where
  "resolve w p = os_path_join (cwd w) p"

definition os_path_abspath :: "os_iface \<Rightarrow> world \<Rightarrow> string \<Rightarrow> string" where
  "os_path_abspath os w p = os_normpath os (resolve w p)"

definition os_path_exists :: "world \<Rightarrow> string \<Rightarrow> bool" where
  "os_path_exists w p = (resolve w p \<in> dirs w \<or> files w (resolve w p) \<noteq> None)"

text \<open>\<^verbatim>\<open>open(p, "w")\<close> truncates or creates; \<^verbatim>\<open>open(p, "a")\<close> keeps what is there.\<close>

definition write_file :: "string \<Rightarrow> string \<Rightarrow> world \<Rightarrow> world" where
  "write_file p txt w = w\<lparr>files := (files w)(resolve w p \<mapsto> txt)\<rparr>"

definition append_file :: "string \<Rightarrow> string \<Rightarrow> world \<Rightarrow> world" where
  "append_file p txt w =
     w\<lparr>files := (files w)(resolve w p \<mapsto>
          (case files w (resolve w p) of None \<Rightarrow> txt | Some old \<Rightarrow> old @ txt))\<rparr>"

definition os_remove :: "string \<Rightarrow> world \<Rightarrow> (exn + unit) \<times> world" where
  "os_remove p w =
     (if files w (resolve w p) \<noteq> None
      then (Inr (), w\<lparr>files := (files w)(resolve w p := None)\<rparr>)
      else (Inl (FileNotFoundError p), w))"

definition os_mkdir :: "string \<Rightarrow> world \<Rightarrow> (exn + unit) \<times> world" where
  "os_mkdir p w =
     (if os_path_exists w p then (Inl (FileExistsError p), w)
      else (Inr (), w\<lparr>dirs := insert (resolve w p) (dirs w)\<rparr>))"

definition os_makedirs :: "string \<Rightarrow> world \<Rightarrow> world" where
  "os_makedirs p w = w\<lparr>dirs := insert (resolve w p) (dirs w)\<rparr>"

definition os_chdir :: "string \<Rightarrow> world \<Rightarrow> (exn + unit) \<times> world" where
  "os_chdir p w =
     (if resolve w p \<in> dirs w then (Inr (), w\<lparr>cwd := resolve w p\<rparr>)
      else (Inl (FileNotFoundError p), w))"

definition shutil_copy :: "string \<Rightarrow> string \<Rightarrow> world \<Rightarrow> (exn + unit) \<times> world" where
  "shutil_copy src dst w =
     (case files w (resolve w src) of
        None \<Rightarrow> (Inl (FileNotFoundError src), w)
      | Some c \<Rightarrow> (Inr (), write_file dst c w))"

text \<open>\<^verbatim>\<open>subprocess.run(cmd, **args)\<close>: the command is recorded and has its effect on files
  and directories. A command still running when the timeout is reached raises
  \<^verbatim>\<open>TimeoutExpired\<close> (so a timeout of 0 always does). Otherwise the captured bytes are
  decoded when \<^verbatim>\<open>text\<close> is true, the output first and then the error stream, and bytes
  that do not decode raise \<^verbatim>\<open>UnicodeDecodeError\<close>. Then a non-zero return code raises
  \<^verbatim>\<open>CalledProcessError\<close> when \<^verbatim>\<open>check\<close> is true. (Every \<^verbatim>\<open>ExecWrapper\<close> of the harness
  sets \<^verbatim>\<open>capture_output\<close> and \<^verbatim>\<open>text\<close>, and no call overrides them, so \<^verbatim>\<open>stdout\<close> and
  \<^verbatim>\<open>stderr\<close> of a result are strings.)\<close>

definition after_run :: "command \<Rightarrow> world \<Rightarrow> world \<Rightarrow> world" where
  "after_run cmd w w1 = w\<lparr>files := files w1, dirs := dirs w1, trace := trace w @ [cmd]\<rparr>"

definition timed_out :: "subprocess_kw \<Rightarrow> nat \<Rightarrow> bool" where
  "timed_out args secs = (case kw_timeout args of Some (Some t) \<Rightarrow> t \<le> secs | _ \<Rightarrow> False)"

definition decode_output :: "os_iface \<Rightarrow> subprocess_kw \<Rightarrow> string \<Rightarrow> exn + string" where
  "decode_output os args bytes =
     (if kw_text args = Some True
      then (case os_decode os bytes of
              None \<Rightarrow> Inl (UnicodeDecodeError bytes)
            | Some txt \<Rightarrow> Inr txt)
      else Inr bytes)"

definition subprocess_run ::
  "os_iface \<Rightarrow> command \<Rightarrow> subprocess_kw \<Rightarrow> world \<Rightarrow> (exn + completed) \<times> world" where
  "subprocess_run os cmd args w =
     (case os_run os cmd args w of
        (p, w1) \<Rightarrow>
          (let w2 = after_run cmd w w1
           in case p of
                SpawnFailed m \<Rightarrow> (Inl (OSError m), w2)
              | Exited rc out err secs \<Rightarrow>
                  (if timed_out args secs
                   then (Inl TimeoutExpired, w2)
                   else (case decode_output os args out of
                           Inl e \<Rightarrow> (Inl e, w2)
                         | Inr out1 \<Rightarrow>
                             (case decode_output os args err of
                                Inl e \<Rightarrow> (Inl e, w2)
                              | Inr err1 \<Rightarrow>
                                  (if kw_check args = Some True \<and> rc \<noteq> 0
                                   then (Inl (CalledProcessError rc out1 err1), w2)
                                   else (Inr \<lparr>returncode = rc, stdout = out1,
                                               stderr = err1\<rparr>, w2)))))))"

text \<open>\<^verbatim>\<open>ExecWrapper.__call__\<close>: only \<^verbatim>\<open>CalledProcessError\<close> is caught; with
  \<^verbatim>\<open>raise_error=False\<close> it is swallowed and the call returns \<^verbatim>\<open>None\<close>.\<close>

definition ExecWrapper_call ::
  "os_iface \<Rightarrow> subprocess_kw \<Rightarrow> command \<Rightarrow> bool \<Rightarrow> subprocess_kw \<Rightarrow> world
     \<Rightarrow> (exn + completed option) \<times> world" where
  "ExecWrapper_call os subprocess_args cmd raise_error kwargs w =
     (case subprocess_run os cmd (merge_kw subprocess_args kwargs) w of
        (Inr output, w1) \<Rightarrow> (Inr (Some output), w1)
      | (Inl (CalledProcessError rc out err), w1) \<Rightarrow>
          (if raise_error then (Inl (CalledProcessError rc out err), w1) else (Inr None, w1))
      | (Inl e, w1) \<Rightarrow> (Inl e, w1))"

text \<open>Reading an attribute of the value a call returned: \<^verbatim>\<open>None\<close> has none.\<close>

definition attr_of :: "completed option \<Rightarrow> string \<Rightarrow> world \<Rightarrow> (exn + completed) \<times> world" where
  "attr_of output name w =
     (case output of None \<Rightarrow> (Inl (AttributeError name), w) | Some c \<Rightarrow> (Inr c, w))"

section \<open>Task instances, install specifications and the constants module\<close>

text \<open>
  A task instance is a dictionary in the source; the keys the harness reads are the
  fields here (\<^verbatim>\<open>KEY_INSTANCE_ID\<close> and \<^verbatim>\<open>KEY_MODEL\<close> name the first and the sixth).
  \<open>None\<close> in an optional field is a key that is absent; reading it raises
  \<^verbatim>\<open>KeyError\<close>. The \<^verbatim>\<open>version\<close> key may be absent, hold \<^verbatim>\<open>None\<close>, or hold a string: the
  three are kept apart, since the code treats them differently.
\<close>

datatype version_entry = Absent | Null | Version string

record task_instance =
  instance_id :: string
  repo :: string
  version :: version_entry
  base_commit :: string
  created_at :: string
  model_name :: "string option"
  test_cmd :: "string option"

text \<open>\<^verbatim>\<open>instance["version"] if "version" in instance else None\<close>.\<close>

definition version_key :: "task_instance \<Rightarrow> string option" where
  "version_key inst = (case version inst of Version ver \<Rightarrow> Some ver | _ \<Rightarrow> None)"

text \<open>An entry of \<^verbatim>\<open>MAP_VERSION_TO_INSTALL[repo][version]\<close>: every key is optional.\<close>

record install_spec =
  ins_packages :: "string option"
  ins_python :: "string option"
  ins_no_use_env :: "bool option"
  ins_pip_packages :: "string option"
  ins_pre_install :: "string list option"
  ins_install :: "string option"
  ins_ocaml :: "string option"
  ins_deps_only_packages :: "string option"

text \<open>The module \<^verbatim>\<open>constants\<close> is not part of the sources at hand: its status tokens and
  its tables are parameters. The inner dictionary of \<^verbatim>\<open>MAP_VERSION_TO_INSTALL\<close> is
  iterated, so it keeps its order.\<close>

record constants =
  APPLY_PATCH_FAIL :: string
  APPLY_PATCH_PASS :: string
  INSTALL_FAIL :: string
  INSTALL_PASS :: string
  INSTALL_TIMEOUT :: string
  RESET_FAILED :: string
  TESTS_FAILED :: string
  TESTS_PASSED :: string
  TESTS_TIMEOUT :: string
  TESTS_ERROR :: string
  MAP_REPO_TO_INSTALL :: "string \<rightharpoonup> command"
  MAP_REPO_TO_TEST_FRAMEWORK :: "string \<rightharpoonup> string"
  MAP_VERSION_TO_INSTALL :: "string \<rightharpoonup> (string \<times> install_spec) list"

text \<open>\<^verbatim>\<open>MAP_VERSION_TO_INSTALL[instance["repo"]][instance["version"]]\<close>: the table is
  indexed by the repository first, then the version is read, then looked up.\<close>

definition lookup_install ::
  "constants \<Rightarrow> string \<Rightarrow> version_entry \<Rightarrow> exn + install_spec" where
  "lookup_install cs r v =
     (case MAP_VERSION_TO_INSTALL cs r of
        None \<Rightarrow> Inl (KeyError r)
      | Some by_version \<Rightarrow>
          (case v of
             Absent \<Rightarrow> Inl (KeyError ''version'')
           | Null \<Rightarrow> Inl (KeyError ''None'')
           | Version ver \<Rightarrow>
               (case map_of by_version ver of
                  None \<Rightarrow> Inl (KeyError ver)
                | Some spec \<Rightarrow> Inr spec)))"

section \<open>TaskEnvContextManager\<close>

text \<open>The object's attributes. \<open>te_exec\<close> is the \<^verbatim>\<open>subprocess_args\<close> of its
  \<^verbatim>\<open>ExecWrapper\<close>; \<open>te_cmd_activate_then\<close> is the closure the constructor stores.\<close>

record task_env =
  te_instance :: task_instance
  te_testbed :: string
  te_testbed_name :: string
  te_venv :: string
  te_switch :: string
  te_container :: string
  te_conda_path :: string
  te_opam_path :: string
  te_opam_root :: "string option"
  te_log_file :: string
  te_is_eval :: bool
  te_cmd_activate_then :: "string \<Rightarrow> string"
  te_timeout :: "nat option"
  te_cwd :: string
  te_exec :: subprocess_kw

text \<open>\<^verbatim>\<open>TaskEnvContextManager.__init__\<close> (the \<^verbatim>\<open>verbose\<close> flag only steers console
  logging, which is not modelled).\<close>

definition TaskEnvContextManager_init ::
  "os_iface \<Rightarrow> task_instance \<Rightarrow> string \<Rightarrow> string \<Rightarrow> string \<Rightarrow> string \<Rightarrow> string \<Rightarrow> string
     \<Rightarrow> string \<Rightarrow> string option \<Rightarrow> nat option \<Rightarrow> bool \<Rightarrow> world \<Rightarrow> exn + task_env" where
  "TaskEnvContextManager_init os inst testbed venv switch container log_dir conda_path
       opam_path opam_root timeout is_eval w =
     (case (if is_eval
            then (case model_name inst of
                    None \<Rightarrow> Inl (KeyError ''model'')
                  | Some m \<Rightarrow>
                      Inr (os_path_join log_dir (instance_id inst @ ''.'' @ m @ ''.eval.log'')))
            else Inr (os_path_join log_dir (instance_id inst @ ''.log''))) of
        Inl e \<Rightarrow> Inl e
      | Inr log_file \<Rightarrow>
          (case version inst of
             Absent \<Rightarrow> Inl (KeyError ''version'')
           | Null \<Rightarrow> Inl (AttributeError ''startswith'')
           | Version ver \<Rightarrow>
               (case os_environ os ''PATH'' of
                  None \<Rightarrow> Inl (KeyError ''PATH'')
                | Some path \<Rightarrow>
                    Inr \<lparr>te_instance = inst,
                         te_testbed = testbed,
                         te_testbed_name = last (py_split (CHR ''/'') testbed),
                         te_venv = venv,
                         te_switch = switch,
                         te_container = container,
                         te_conda_path = conda_path,
                         te_opam_path = opam_path,
                         te_opam_root = opam_root,
                         te_log_file = log_file,
                         te_is_eval = is_eval,
                         te_cmd_activate_then =
                           (if startswith ver ''coq.''
                            then (\<lambda>cmd. opam_path @ '' switch ''
                                   @ (if opam_root \<noteq> None \<and> opam_root \<noteq> Some []
                                      then ''--root='' @ fmt_opt opam_root else [])
                                   @ '' '' @ switch @ '' && eval $('' @ opam_path
                                   @ '' env) && echo 'activate successful' && '' @ cmd)
                            else if startswith ver ''docker-coq.''
                            then (\<lambda>cmd. ''docker run -v .:/home/coq/workdir -it coqorg/coq:''
                                   @ drop (length ''docker-coq.'') ver @ '' '' @ cmd)
                            else (\<lambda>cmd. ''. ''
                                   @ os_path_join (os_path_join conda_path ''bin'') ''activate''
                                   @ '' '' @ venv @ '' && echo 'activate successful' && '' @ cmd)),
                         te_timeout = timeout,
                         te_cwd = cwd w,
                         te_exec =
                           \<lparr>kw_check = Some True, kw_shell = Some False,
                            kw_capture_output = Some True, kw_text = Some True,
                            kw_env = Some ((os_environ os)(''PATH'' \<mapsto>
                               os_path_join conda_path ''bin'' @ os_pathsep
                               @ os_path_dirname opam_path @ os_pathsep @ path)),
                            kw_timeout = None\<rparr>\<rparr>)))"

definition log_header :: "task_env \<Rightarrow> string" where
  "log_header self =
     ''Task Metadata:'' @ [CHR 0x0A, CHR 0x09] @ ''- Instance ID: ''
       @ instance_id (te_instance self) @ [CHR 0x0A, CHR 0x09] @ ''- Testbed: ''
       @ te_testbed self @ [CHR 0x0A, CHR 0x09] @ ''- Virtual Env.: '' @ te_venv self
       @ [CHR 0x0A]"

text \<open>\<^verbatim>\<open>__enter__\<close>: change into the testbed, then open the log file with mode \<^verbatim>\<open>"w"\<close>
  and write the header; the second write goes to the same open file.\<close>

definition TaskEnvContextManager_enter :: "task_env \<Rightarrow> world \<Rightarrow> (exn + unit) \<times> world" where
  "TaskEnvContextManager_enter self w =
     and_then (os_chdir (te_testbed self) w)
       (\<lambda>_ w1.
          (let w2 = write_file (te_log_file self) (log_header self) w1
           in if te_is_eval self
              then (case model_name (te_instance self) of
                      None \<Rightarrow> (Inl (KeyError ''model''), w2)
                    | Some m \<Rightarrow>
                        (Inr (), append_file (te_log_file self)
                           ([CHR 0x09] @ ''- Evaluation Model: '' @ m @ [CHR 0x0A]) w2))
              else (Inr (), w2)))"

definition TaskEnvContextManager_exit :: "task_env \<Rightarrow> world \<Rightarrow> (exn + unit) \<times> world" where
  "TaskEnvContextManager_exit self w = os_chdir (te_cwd self) w"

text \<open>The call \<^verbatim>\<open>self.exec(cmd, ...)\<close> of a task environment.\<close>

definition te_call ::
  "os_iface \<Rightarrow> task_env \<Rightarrow> command \<Rightarrow> bool \<Rightarrow> subprocess_kw \<Rightarrow> world
     \<Rightarrow> (exn + completed option) \<times> world" where
  "te_call os self cmd raise_error kwargs w =
     ExecWrapper_call os (te_exec self) cmd raise_error kwargs w"

subsection \<open>reset_task_env\<close>

definition reset_task_env_try ::
  "os_iface \<Rightarrow> task_env \<Rightarrow> task_instance \<Rightarrow> world \<Rightarrow> (exn + bool) \<times> world" where
  "reset_task_env_try os self inst w =
     and_then
       (if os_path_exists w ''.gitignore''
        then te_call os self
               (CmdList (py_split_ws
                  ''git ls-files --ignored --exclude-standard -o -z | xargs -0 -r rm -rf''))
               False no_kw w
        else (Inr None, w))
     (\<lambda>_ w1. and_then
        (te_call os self (CmdList (py_split (CHR '' '') ''git restore .'')) True no_kw w1)
     (\<lambda>_ w2. and_then
        (te_call os self (CmdList (py_split (CHR '' '') ''git reset HEAD .'')) True no_kw w2)
     (\<lambda>_ w3. and_then
        (te_call os self (CmdList (py_split (CHR '' '') ''git clean -fdx'')) True no_kw w3)
     (\<lambda>_ w4. and_then
        (te_call os self
           (CmdList (py_split (CHR '' '') ''git submodule foreach --recursive git clean -fdx''))
           True no_kw w4)
     (\<lambda>_ w5. and_then
        (te_call os self
           (CmdList (py_split (CHR '' '')
              (''git -c advice.detachedHead=false checkout --recurse-submodules -f ''
                 @ base_commit inst)))
           True no_kw w5)
     (\<lambda>_ w6. and_then
        (te_call os self
           (CmdList (py_split (CHR '' '') ''git submodule update --init --recursive''))
           True no_kw w6)
     (\<lambda>_ w7. (Inr True, w7))))))))"

text \<open>\<^verbatim>\<open>except Exception as e\<close>: every exception of the body is caught and logged.\<close>

definition reset_task_env ::
  "os_iface \<Rightarrow> constants \<Rightarrow> task_env \<Rightarrow> task_instance \<Rightarrow> world \<Rightarrow> (exn + bool) \<times> world" where
  "reset_task_env os cs self inst w =
     (case reset_task_env_try os self inst w of
        (Inr b, w1) \<Rightarrow> (Inr b, w1)
      | (Inl e, w1) \<Rightarrow>
          (Inr False,
           append_file (te_log_file self)
             (RESET_FAILED cs @ ''; Failed to reset task environment to ''
                @ base_commit inst @ '': '' @ exn_str os e) w1))"

subsection \<open>run_install_task\<close>

text \<open>The keyword arguments \<^verbatim>\<open>timeout=self.timeout, shell=True\<close>.\<close>

definition kw_timeout_shell :: "task_env \<Rightarrow> subprocess_kw" where
  "kw_timeout_shell self = no_kw\<lparr>kw_shell := Some True, kw_timeout := Some (te_timeout self)\<rparr>"

text \<open>The loop over \<^verbatim>\<open>specifications["pre_install"]\<close>. The result \<open>False\<close> is the
  \<^verbatim>\<open>return False\<close> inside the loop; \<open>True\<close> is the loop running to its end.\<close>

fun pre_install_loop ::
  "os_iface \<Rightarrow> constants \<Rightarrow> task_env \<Rightarrow> string list \<Rightarrow> world \<Rightarrow> (exn + bool) \<times> world" where
  "pre_install_loop os cs self [] w = (Inr True, w)"
| "pre_install_loop os cs self (pre_install # rest) w =
     (let cmd_pre_install = te_cmd_activate_then self pre_install
      in and_then (te_call os self (CmdStr cmd_pre_install) True (kw_timeout_shell self) w)
           (\<lambda>out_pre_install w1.
              and_then
                (attr_of out_pre_install ''stdout''
                   (append_file (te_log_file self)
                      (''Pre-installation Command: '' @ cmd_pre_install @ [CHR 0x0A]) w1))
                (\<lambda>c w2.
                   (let w3 = append_file (te_log_file self)
                               (''Std. Output: '' @ stdout c @ [CHR 0x0A]
                                  @ ''Std. Error: '' @ stderr c @ [CHR 0x0A]) w2
                    in if returncode c \<noteq> 0
                       then (Inr False,
                             append_file (te_log_file self)
                               ([CHR 0x0A] @ INSTALL_FAIL cs @ [CHR 0x0A]) w3)
                       else pre_install_loop os cs self rest w3))))"

text \<open>The body of the \<^verbatim>\<open>try\<close> around the install command.\<close>

definition run_install_try ::
  "os_iface \<Rightarrow> constants \<Rightarrow> task_env \<Rightarrow> string \<Rightarrow> world \<Rightarrow> (exn + bool) \<times> world" where
  "run_install_try os cs self cmd_install w =
     and_then (te_call os self (CmdStr cmd_install) True (kw_timeout_shell self) w)
       (\<lambda>out_install w1.
          and_then
            (attr_of out_install ''stdout''
               (append_file (te_log_file self)
                  (''Installation Command: '' @ cmd_install @ [CHR 0x0A]) w1))
            (\<lambda>c w2.
               (let w3 = append_file (te_log_file self)
                           (''Std. Output: '' @ stdout c @ [CHR 0x0A]
                              @ ''Std. Error: '' @ stderr c @ [CHR 0x0A]) w2
                in if returncode c \<noteq> 0
                   then (Inr False,
                         append_file (te_log_file self)
                           ([CHR 0x0A] @ INSTALL_FAIL cs @ [CHR 0x0A]) w3)
                   else (Inr True,
                         append_file (te_log_file self)
                           ([CHR 0x0A] @ INSTALL_PASS cs @ [CHR 0x0A]) w3))))"

text \<open>\<^verbatim>\<open>run_install_task\<close>: the only handler is \<^verbatim>\<open>except subprocess.TimeoutExpired\<close>, around
  the install command; the look-up of the specification and the pre-install loop stand
  outside it.\<close>

definition run_install_task ::
  "os_iface \<Rightarrow> constants \<Rightarrow> task_env \<Rightarrow> task_instance \<Rightarrow> world \<Rightarrow> (exn + bool) \<times> world" where
  "run_install_task os cs self inst w =
     (case lookup_install cs (repo inst) (version inst) of
        Inl e \<Rightarrow> (Inl e, w)
      | Inr specifications \<Rightarrow>
          and_then
            (case ins_pre_install specifications of
               None \<Rightarrow> (Inr True, w)
             | Some cmds \<Rightarrow> pre_install_loop os cs self cmds w)
            (\<lambda>go_on w1.
               if \<not> go_on then (Inr False, w1)
               else (case ins_install specifications of
                       None \<Rightarrow> (Inr True, w1)
                     | Some install \<Rightarrow>
                         (case run_install_try os cs self
                                 (te_cmd_activate_then self install) w1 of
                            (Inl TimeoutExpired, w2) \<Rightarrow>
                              (Inr False,
                               append_file (te_log_file self)
                                 ([CHR 0x0A] @ INSTALL_TIMEOUT cs @ [CHR 0x0A]) w2)
                          | r \<Rightarrow> r))))"

subsection \<open>apply_patch\<close>

definition patch_path_of :: "task_env \<Rightarrow> string \<Rightarrow> string" where
  "patch_path_of self patch_type =
     os_path_join (os_path_dirname (rstrip ''/'' (te_testbed self)))
       (''temp_'' @ instance_id (te_instance self) @ ''_'' @ patch_type @ ''.patch'')"

text \<open>The keyword argument \<^verbatim>\<open>check=False\<close>.\<close>

definition patch_kw :: subprocess_kw where
  "patch_kw = no_kw\<lparr>kw_check := Some False\<rparr>"

definition apply_cmd_of :: "string \<Rightarrow> bool \<Rightarrow> command" where
  "apply_cmd_of patch_path revert =
     CmdList (py_split (CHR '' '')
       (if revert then ''git apply -v -R '' @ patch_path else ''git apply -v '' @ patch_path))"

definition apply_patch ::
  "os_iface \<Rightarrow> constants \<Rightarrow> task_env \<Rightarrow> string option \<Rightarrow> string \<Rightarrow> bool \<Rightarrow> world
     \<Rightarrow> (exn + bool) \<times> world" where
  "apply_patch os cs self patch patch_type revert w =
     (case patch of
        None \<Rightarrow>
          (Inr False,
           append_file (te_log_file self)
             (APPLY_PATCH_FAIL cs @ ''; Prediction patch is `None`'') w)
      | Some patch_text \<Rightarrow>
          (let patch_path = patch_path_of self patch_type;
               w1 = write_file patch_path patch_text w
           in and_then
                (te_call os self (apply_cmd_of patch_path revert) False patch_kw w1)
                (\<lambda>out_patch w2.
                   and_then (os_remove patch_path w2)
                     (\<lambda>_ w3.
                        and_then (attr_of out_patch ''returncode'' w3)
                          (\<lambda>c w4.
                             if returncode c \<noteq> 0
                             then (Inr False,
                                   append_file (te_log_file self)
                                     (APPLY_PATCH_FAIL cs @ ''; ('' @ patch_type @ '')''
                                        @ [CHR 0x0A] @ ''Output:'' @ [CHR 0x0A]
                                        @ stdout c @ stderr c) w4)
                             else (Inr True,
                                   append_file (te_log_file self)
                                     (APPLY_PATCH_PASS cs @ '' ('' @ patch_type @ '')''
                                        @ [CHR 0x0A]) w4))))))"

subsection \<open>run_tests_task\<close>

text \<open>The keyword arguments \<^verbatim>\<open>shell=True, timeout=self.timeout, check=False\<close>.\<close>

definition tests_kw :: "task_env \<Rightarrow> subprocess_kw" where
  "tests_kw self =
     no_kw\<lparr>kw_check := Some False, kw_shell := Some True, kw_timeout := Some (te_timeout self)\<rparr>"

definition run_tests_try ::
  "os_iface \<Rightarrow> constants \<Rightarrow> task_env \<Rightarrow> task_instance \<Rightarrow> world \<Rightarrow> (exn + bool) \<times> world" where
  "run_tests_try os cs self inst w =
     (case test_cmd inst of
        None \<Rightarrow> (Inl (KeyError ''test_cmd''), w)
      | Some tc \<Rightarrow>
          (let cmd = te_cmd_activate_then self tc;
               w1 = append_file (te_log_file self)
                      (''Test Script: '' @ cmd @ '';'' @ [CHR 0x0A]) w
           in and_then
                (te_call os self (CmdStr cmd) True (tests_kw self) w1)
                (\<lambda>out_test w2.
                   and_then
                     (attr_of out_test ''stdout''
                        (append_file (te_log_file self) (''Output:'' @ [CHR 0x0A]) w2))
                     (\<lambda>c w3.
                        (Inr True,
                         append_file (te_log_file self)
                           (stdout c @ stderr c
                              @ (if returncode c \<noteq> 0
                                 then [CHR 0x0A] @ TESTS_FAILED cs @ [CHR 0x0A]
                                 else [CHR 0x0A] @ TESTS_PASSED cs @ [CHR 0x0A])) w3)))))"

text \<open>The two handlers, in the source's order: \<^verbatim>\<open>subprocess.TimeoutExpired\<close>, then
  \<^verbatim>\<open>Exception\<close>.\<close>

definition run_tests_task ::
  "os_iface \<Rightarrow> constants \<Rightarrow> task_env \<Rightarrow> task_instance \<Rightarrow> world \<Rightarrow> (exn + bool) \<times> world" where
  "run_tests_task os cs self inst w =
     (case run_tests_try os cs self inst w of
        (Inr b, w1) \<Rightarrow> (Inr b, w1)
      | (Inl TimeoutExpired, w1) \<Rightarrow>
          (Inr False,
           append_file (te_log_file self)
             (TESTS_TIMEOUT cs @ '' after '' @ fmt_opt_nat (te_timeout self)
                @ '' seconds'' @ [CHR 0x0A]) w1)
      | (Inl e, w1) \<Rightarrow>
          (Inr False,
           append_file (te_log_file self) (TESTS_ERROR cs @ '': '' @ exn_str os e) w1))"

section \<open>TestbedContextManager\<close>

text \<open>The module \<^verbatim>\<open>utils\<close> is not part of the sources at hand either: its functions are
  parameters. They read the world; those that clone or write files change its files and
  directories.\<close>

record utils =
  clone_repo :: "string \<Rightarrow> string \<Rightarrow> world \<Rightarrow> (exn + unit) \<times> world"
  get_conda_env_names :: "string \<Rightarrow> (string \<rightharpoonup> string) \<Rightarrow> world \<Rightarrow> exn + string list"
  get_opam_switch_names :: "string \<Rightarrow> (string \<rightharpoonup> string) \<Rightarrow> world \<Rightarrow> exn + string list"
  get_docker_container_names :: "(string \<rightharpoonup> string) \<Rightarrow> world \<Rightarrow> exn + string list"
  get_environment_yml ::
    "task_instance \<Rightarrow> string \<Rightarrow> string \<Rightarrow> world \<Rightarrow> (exn + string) \<times> world"
  get_requirements :: "task_instance \<Rightarrow> string \<Rightarrow> world \<Rightarrow> (exn + string) \<times> world"
  get_test_directives :: "task_instance \<Rightarrow> string list"

definition ext_effect :: "world \<Rightarrow> 'a \<times> world \<Rightarrow> 'a \<times> world" where
  "ext_effect w r = (case r of (a, w1) \<Rightarrow> (a, w\<lparr>files := files w1, dirs := dirs w1\<rparr>))"

type_synonym grouped = "(string \<times> (string option \<times> task_instance list) list) list"

type_synonym setup_refs = "(string \<times> (string option \<times> task_instance) list) list"

text \<open>The object's attributes. \<open>tb_temp_dir_conda\<close>, \<open>tb_temp_dir_opam\<close> and
  \<open>tb_temp_dir_work\<close> hold the name of the \<^verbatim>\<open>TemporaryDirectory\<close>, or \<open>None\<close>.
  \<open>tb_path_opam_root = None\<close> is the attribute not having been assigned;
  \<open>tb_has_set_up_conda\<close> and \<open>tb_has_set_up_opam\<close> are the attributes that
  \<^verbatim>\<open>hasattr\<close> tests.\<close>

record testbed_cm =
  tb_verbose :: bool
  tb_old_dir :: string
  tb_log_dir :: string
  tb_timeout :: "nat option"
  tb_exec :: subprocess_kw
  tb_temp_dir_conda :: "string option"
  tb_path_conda :: string
  tb_temp_dir_opam :: "string option"
  tb_path_opam :: string
  tb_temp_dir_work :: "string option"
  tb_testbed :: string
  tb_task_instances :: "task_instance list"
  tb_task_instances_grouped :: grouped
  tb_setup_refs :: setup_refs
  tb_path_opam_root :: "string option"
  tb_has_set_up_conda :: bool
  tb_has_set_up_opam :: bool
  tb_docker_container_name :: "string option"

subsection \<open>Grouping of the task instances\<close>

text \<open>\<^verbatim>\<open>sorted(task_instances, key=..., reverse=True)\<close>: descending, and stable (instances
  with equal keys keep their order).\<close>

definition sorted_desc :: "task_instance list \<Rightarrow> task_instance list" where
  "sorted_desc xs = rev (sort_key created_at (rev xs))"

definition set_test_cmd :: "constants \<Rightarrow> utils \<Rightarrow> task_instance \<Rightarrow> exn + task_instance" where
  "set_test_cmd cs ut inst =
     (case MAP_REPO_TO_TEST_FRAMEWORK cs (repo inst) of
        None \<Rightarrow> Inl (KeyError (repo inst))
      | Some test_type \<Rightarrow>
          Inr (inst\<lparr>test_cmd :=
                 Some (test_type @ '' '' @ py_join '' '' (get_test_directives ut inst))\<rparr>))"

definition with_test_cmd :: "constants \<Rightarrow> utils \<Rightarrow> task_instance \<Rightarrow> task_instance" where
  "with_test_cmd cs ut inst = (case set_test_cmd cs ut inst of Inl _ \<Rightarrow> inst | Inr inst1 \<Rightarrow> inst1)"

text \<open>One turn of the grouping loop: the dictionaries keep insertion order, a new key goes
  to the end, an old key keeps its place.\<close>

definition add_to_group :: "grouped \<Rightarrow> task_instance \<Rightarrow> grouped" where
  "add_to_group g inst =
     (let by_version = (case map_of g (repo inst) of None \<Rightarrow> [] | Some m \<Rightarrow> m);
          members = (case map_of by_version (version_key inst) of None \<Rightarrow> [] | Some l \<Rightarrow> l)
      in AList.update (repo inst)
           (AList.update (version_key inst) (members @ [inst]) by_version) g)"

fun group_loop :: "constants \<Rightarrow> utils \<Rightarrow> grouped \<Rightarrow> task_instance list \<Rightarrow> exn + grouped" where
  "group_loop cs ut g [] = Inr g"
| "group_loop cs ut g (inst # rest) =
     (case set_test_cmd cs ut inst of
        Inl e \<Rightarrow> Inl e
      | Inr inst1 \<Rightarrow> group_loop cs ut (add_to_group g inst1) rest)"

text \<open>\<^verbatim>\<open>self.setup_refs[repo][version] = instances[0]\<close>. (A list of members is
  created by its first \<^verbatim>\<open>append\<close>, so it is never empty when it is read here.)\<close>

definition make_setup_refs :: "grouped \<Rightarrow> setup_refs" where
  "make_setup_refs g =
     map (\<lambda>(r, by_version).
            (r, concat (map (\<lambda>(v, l). (case l of [] \<Rightarrow> [] | x # _ \<Rightarrow> [(v, x)])) by_version)))
         g"

text \<open>\<^verbatim>\<open>_custom_restraints\<close>: the inner loop runs over the keys that are left once the
  \<^verbatim>\<open>None\<close> version is deleted; the table is read inside it.\<close>

fun restrain_versions ::
  "constants \<Rightarrow> string \<Rightarrow> (string option \<times> task_instance list) list \<Rightarrow> string option list
     \<Rightarrow> exn + (string option \<times> task_instance list) list" where
  "restrain_versions cs r grp [] = Inr grp"
| "restrain_versions cs r grp (v # vs) =
     (case MAP_VERSION_TO_INSTALL cs r of
        None \<Rightarrow> Inl (KeyError r)
      | Some specs \<Rightarrow>
          restrain_versions cs r
            (if (case v of None \<Rightarrow> True | Some ver \<Rightarrow> map_of specs ver = None)
             then AList.delete v grp else grp)
            vs)"

fun custom_restraints :: "constants \<Rightarrow> grouped \<Rightarrow> exn + grouped" where
  "custom_restraints cs [] = Inr []"
| "custom_restraints cs ((r, grp) # rest) =
     (let group1 = AList.delete None grp
      in case restrain_versions cs r group1 (map fst group1) of
           Inl e \<Rightarrow> Inl e
         | Inr group2 \<Rightarrow>
             (case custom_restraints cs rest of
                Inl e \<Rightarrow> Inl e
              | Inr rest1 \<Rightarrow> Inr ((r, group2) # rest1)))"

text \<open>Lines 141 to 179 of the constructor: the sorted instances (the loop has stored a
  test command in each of them), the groups after the restraints, and the set-up
  references (taken before the restraints).\<close>

definition group_task_instances ::
  "constants \<Rightarrow> utils \<Rightarrow> task_instance list
     \<Rightarrow> exn + (task_instance list \<times> grouped \<times> setup_refs)" where
  "group_task_instances cs ut task_instances =
     (case group_loop cs ut [] (sorted_desc task_instances) of
        Inl e \<Rightarrow> Inl e
      | Inr g \<Rightarrow>
          (case custom_restraints cs g of
             Inl e \<Rightarrow> Inl e
           | Inr g1 \<Rightarrow>
               Inr (map (with_test_cmd cs ut) (sorted_desc task_instances),
                    g1, make_setup_refs g)))"

text \<open>The vocabulary of the grouping property: a version that has an install
  specification for a repository; the members of the groups of one repository and of all
  repositories, in order; the members stored under a repository and a version; and an
  instance belonging to the group of a repository and a version.\<close>

definition has_install_spec :: "constants \<Rightarrow> string \<Rightarrow> string option \<Rightarrow> bool" where
  "has_install_spec cs r v =
     (case v of
        None \<Rightarrow> False
      | Some ver \<Rightarrow>
          (case MAP_VERSION_TO_INSTALL cs r of
             None \<Rightarrow> False
           | Some specs \<Rightarrow> map_of specs ver \<noteq> None))"

definition members_of :: "(string option \<times> task_instance list) list \<Rightarrow> task_instance list" where
  "members_of grp = concat (map snd grp)"

definition all_members :: "grouped \<Rightarrow> task_instance list" where
  "all_members g = concat (map (\<lambda>(r, grp). members_of grp) g)"

definition members_at :: "grouped \<Rightarrow> string \<Rightarrow> string option \<Rightarrow> task_instance list" where
  "members_at g r v =
     (case map_of g r of
        None \<Rightarrow> []
      | Some grp \<Rightarrow> (case map_of grp v of None \<Rightarrow> [] | Some l \<Rightarrow> l))"

definition in_group :: "string \<Rightarrow> string option \<Rightarrow> task_instance \<Rightarrow> bool" where
  "in_group r v inst = (repo inst = r \<and> version_key inst = v)"

text \<open>What the grouping loop keeps true of the groups \<open>g\<close> built from the instances
  \<open>xs\<close> seen so far.\<close>

definition groups_inv :: "grouped \<Rightarrow> task_instance list \<Rightarrow> bool" where
  "groups_inv g xs =
     (distinct (map fst g)
      \<and> (\<forall>r grp. map_of g r = Some grp \<longrightarrow>
             distinct (map fst grp) \<and> (\<forall>v l. map_of grp v = Some l \<longrightarrow> l \<noteq> []))
      \<and> (\<forall>r v. members_at g r v = filter (in_group r v) xs)
      \<and> mset (all_members g) = mset xs)"

subsection \<open>The constructor and the teardown\<close>

text \<open>\<^verbatim>\<open>TemporaryDirectory(dir=...)\<close> creates a directory and keeps its name;
  \<^verbatim>\<open>cleanup()\<close> removes the directory with everything below it.\<close>

definition TemporaryDirectory :: "os_iface \<Rightarrow> string option \<Rightarrow> world \<Rightarrow> string \<times> world" where
  "TemporaryDirectory os dir w =
     (let name = os_mkdtemp os dir w in (name, w\<lparr>dirs := insert name (dirs w)\<rparr>))"

definition below :: "string \<Rightarrow> string \<Rightarrow> bool" where
  "below name p = (p = name \<or> startswith p (name @ ''/''))"

definition cleanup :: "string \<Rightarrow> world \<Rightarrow> world" where
  "cleanup name w =
     w\<lparr>files := (\<lambda>p. if below name p then None else files w p),
       dirs := {d \<in> dirs w. \<not> below name d}\<rparr>"

text \<open>A tool or working path: the one supplied, made absolute, or a new temporary
  directory (lines 112 to 139, three times).\<close>

definition path_or_temp ::
  "os_iface \<Rightarrow> string option \<Rightarrow> string option \<Rightarrow> world \<Rightarrow> (string option \<times> string) \<times> world" where
  "path_or_temp os path temp_dir w =
     (case path of
        Some p \<Rightarrow> ((None, os_path_abspath os w p), w)
      | None \<Rightarrow>
          (case TemporaryDirectory os temp_dir w of
             (name, w1) \<Rightarrow> ((Some name, name), w1)))"

definition TestbedContextManager_init ::
  "os_iface \<Rightarrow> constants \<Rightarrow> utils \<Rightarrow> task_instance list \<Rightarrow> string \<Rightarrow> string option
     \<Rightarrow> string option \<Rightarrow> string option \<Rightarrow> bool \<Rightarrow> nat option \<Rightarrow> string option \<Rightarrow> world
     \<Rightarrow> (exn + testbed_cm) \<times> world" where
  "TestbedContextManager_init os cs ut task_instances log_dir path_conda path_opam testbed
       verbose timeout temp_dir w =
     (let log_dir1 = os_path_abspath os w log_dir;
          w1 = (if \<not> os_path_exists w log_dir1 then os_makedirs log_dir1 w else w);
          w2 = (case temp_dir of
                  None \<Rightarrow> w1
                | Some t \<Rightarrow> if \<not> os_path_exists w1 t then os_makedirs t w1 else w1);
          temp_dir1 = map_option (os_path_abspath os w2) temp_dir
      in case path_or_temp os path_conda temp_dir1 w2 of
           ((temp_dir_conda, path_conda1), w3) \<Rightarrow>
      (case path_or_temp os path_opam temp_dir1 w3 of
           ((temp_dir_opam, path_opam1), w4) \<Rightarrow>
      (case path_or_temp os testbed temp_dir1 w4 of
           ((temp_dir_work, testbed1), w5) \<Rightarrow>
      (case group_task_instances cs ut task_instances of
         Inl e \<Rightarrow> (Inl e, w5)
       | Inr (sorted_instances, g, refs) \<Rightarrow>
           (Inr \<lparr>tb_verbose = verbose,
                 tb_old_dir = cwd w,
                 tb_log_dir = log_dir1,
                 tb_timeout = timeout,
                 tb_exec = \<lparr>kw_check = Some True, kw_shell = Some False,
                            kw_capture_output = Some True, kw_text = Some True,
                            kw_env = None, kw_timeout = None\<rparr>,
                 tb_temp_dir_conda = temp_dir_conda,
                 tb_path_conda = path_conda1,
                 tb_temp_dir_opam = temp_dir_opam,
                 tb_path_opam = path_opam1,
                 tb_temp_dir_work = temp_dir_work,
                 tb_testbed = testbed1,
                 tb_task_instances = sorted_instances,
                 tb_task_instances_grouped = g,
                 tb_setup_refs = refs,
                 tb_path_opam_root = None,
                 tb_has_set_up_conda = False,
                 tb_has_set_up_opam = False,
                 tb_docker_container_name = None\<rparr>, w5)))))"

text \<open>The call \<^verbatim>\<open>self.exec(cmd)\<close> of the testbed.\<close>

definition tb_call ::
  "os_iface \<Rightarrow> testbed_cm \<Rightarrow> command \<Rightarrow> subprocess_kw \<Rightarrow> world
     \<Rightarrow> (exn + completed option) \<times> world" where
  "tb_call os self cmd kwargs w = ExecWrapper_call os (tb_exec self) cmd True kwargs w"

text \<open>\<^verbatim>\<open>__exit__\<close>: the working root and the conda directory are cleaned up when the
  harness made them, then the container is stopped and removed. (The method returns
  \<^verbatim>\<open>None\<close>. \<open>tb_docker_container_name\<close> is assigned on entry, so it is readable here.)\<close>

definition TestbedContextManager_exit ::
  "os_iface \<Rightarrow> testbed_cm \<Rightarrow> world \<Rightarrow> (exn + unit) \<times> world" where
  "TestbedContextManager_exit os self w =
     (let w1 = (case tb_temp_dir_work self of None \<Rightarrow> w | Some d \<Rightarrow> cleanup d w);
          w2 = (case tb_temp_dir_conda self of None \<Rightarrow> w1 | Some d \<Rightarrow> cleanup d w1)
      in case tb_docker_container_name self of
           None \<Rightarrow> (Inr (), w2)
         | Some name \<Rightarrow>
             and_then
               (tb_call os self (CmdList (py_split (CHR '' '') (''docker stop '' @ name)))
                  no_kw w2)
               (\<lambda>_ w3.
                  and_then
                    (tb_call os self (CmdList (py_split (CHR '' '') (''docker rm '' @ name)))
                       no_kw w3)
                    (\<lambda>_ w4. (Inr (), w4))))"

subsection \<open>Provisioning: the back-end tools\<close>

text \<open>The local variables of \<^verbatim>\<open>__enter__\<close> that the loop carries from one group to the
  next. \<open>shellenv\<close> is the dictionary that \<^verbatim>\<open>self.exec.subprocess_args["env"]\<close> also
  refers to: each update is written to both.\<close>

record enter_locals =
  shellenv :: "string \<rightharpoonup> string"
  path_activate :: "string option"
  exec_cmd :: "string option"
  env_list :: "string list option"
  opam_exec_cmd :: "string option"
  switch_list :: "string list option"
  container_list :: "string list option"

definition is_osx_64 :: "os_iface \<Rightarrow> bool" where
  "is_osx_64 os = (platform_system os = ''Darwin'' \<and> platform_machine os = ''arm64'')"

definition miniconda_link :: "os_iface \<Rightarrow> exn + string" where
  "miniconda_link os =
     (if platform_system os = ''Darwin''
      then Inr (if is_osx_64 os
                then ''https://repo.anaconda.com/miniconda/Miniconda3-latest-MacOSX-arm64.sh''
                else ''https://repo.anaconda.com/miniconda/Miniconda3-latest-MacOSX-x86_64.sh'')
      else if platform_system os = ''Linux''
      then Inr (if platform_machine os = ''aarch64''
                then ''https://repo.anaconda.com/miniconda/Miniconda3-latest-Linux-aarch64.sh''
                else ''https://repo.anaconda.com/miniconda/Miniconda3-latest-Linux-x86_64.sh'')
      else Inl (ValueError (''Unknown computer platform '' @ platform_system os)))"

text \<open>The first block of \<^verbatim>\<open>__setup_conda\<close>, run when the harness made the conda
  directory itself: download and install Miniconda there.\<close>

definition install_miniconda ::
  "os_iface \<Rightarrow> testbed_cm \<Rightarrow> world \<Rightarrow> (exn + testbed_cm) \<times> world" where
  "install_miniconda os self w =
     (let self1 = self\<lparr>tb_path_conda := os_path_join (tb_path_conda self) ''miniconda3''\<rparr>;
          miniconda_sh = os_path_join (tb_path_conda self1) ''miniconda.sh''
      in and_then (os_mkdir (tb_path_conda self1) w)
         (\<lambda>_ w1.
            case miniconda_link os of
              Inl e \<Rightarrow> (Inl e, w1)
            | Inr cmd_line_install_link \<Rightarrow>
                and_then
                  (tb_call os self1
                     (CmdList [''wget'', cmd_line_install_link, ''-O'', miniconda_sh]) no_kw w1)
                (\<lambda>_ w2. and_then
                  (tb_call os self1
                     (CmdList [''bash'', miniconda_sh, ''-b'', ''-u'', ''-p'', tb_path_conda self1])
                     no_kw w2)
                (\<lambda>_ w3. and_then
                  (if is_osx_64 os
                   then tb_call os self1
                          (CmdList [os_path_join (os_path_join (tb_path_conda self1) ''bin'')
                                      ''conda'',
                                    ''config'', ''--env'', ''--set'', ''subdir'', ''osx-64''])
                          no_kw w3
                   else (Inr None, w3))
                (\<lambda>_ w4. and_then (os_remove miniconda_sh w4)
                (\<lambda>_ w5. (Inr self1, w5)))))))"

definition setup_conda ::
  "os_iface \<Rightarrow> utils \<Rightarrow> testbed_cm \<Rightarrow> enter_locals \<Rightarrow> world
     \<Rightarrow> (exn + testbed_cm \<times> enter_locals) \<times> world" where
  "setup_conda os ut self loc w =
     and_then
       (if tb_temp_dir_conda self \<noteq> None then install_miniconda os self w else (Inr self, w))
       (\<lambda>self1 w1.
          if \<not> tb_has_set_up_conda self1
          then (let path_conda = os_path_abspath os w1 (tb_path_conda self1);
                    conda_bin_path = os_path_join path_conda ''bin''
                in case shellenv loc ''PATH'' of
                     None \<Rightarrow> (Inl (KeyError ''PATH''), w1)
                   | Some path \<Rightarrow>
                       (let env1 = (shellenv loc)(''PATH'' \<mapsto> conda_bin_path @ os_pathsep @ path);
                            exec_type = (if contains path_conda ''mamba'' then ''mamba''
                                         else ''conda'');
                            exec_cmd1 = os_path_join (os_path_join path_conda ''bin'') exec_type
                        in case get_conda_env_names ut exec_cmd1 env1 w1 of
                             Inl e \<Rightarrow> (Inl e, w1)
                           | Inr names \<Rightarrow>
                               (Inr (self1\<lparr>tb_has_set_up_conda := True,
                                           tb_path_conda := path_conda,
                                           tb_exec := (tb_exec self1)\<lparr>kw_env := Some env1\<rparr>\<rparr>,
                                     loc\<lparr>shellenv := env1,
                                         path_activate :=
                                           Some (os_path_join (os_path_join path_conda ''bin'')
                                                   ''activate''),
                                         exec_cmd := Some exec_cmd1,
                                         env_list := Some names\<rparr>), w1)))
          else (Inr (self1, loc), w1))"

text \<open>\<^verbatim>\<open>re.search(r'Found opam binary in (.*) \.\.\.', line)\<close> on a line without a newline:
  the group runs from the first occurrence of the prefix to the last occurrence of the
  suffix after it.\<close>

definition search_opam_binary :: "string \<Rightarrow> string option" where
  "search_opam_binary line =
     (case after_first ''Found opam binary in '' line of
        None \<Rightarrow> None
      | Some rest \<Rightarrow> before_last '' ...'' rest)"

definition first_line :: "string \<Rightarrow> string" where
  "first_line s =
     (case py_split (CHR 0x0A) (strip [CHR '' '', CHR 0x0A] s) of [] \<Rightarrow> [] | l # _ \<Rightarrow> l)"

text \<open>The first block of \<^verbatim>\<open>__setup_opam\<close>, run when the harness made the opam directory
  itself. (\<^verbatim>\<open>os.stat\<close> and \<^verbatim>\<open>os.chmod\<close> on the file just copied change permissions only.)\<close>

definition install_opam ::
  "os_iface \<Rightarrow> testbed_cm \<Rightarrow> world \<Rightarrow> (exn + testbed_cm) \<times> world" where
  "install_opam os self w =
     (let opam_install_sh = os_path_join (tb_path_opam self) ''opam_install.sh'';
          install_cmd = CmdList [''bash'', opam_install_sh, ''--download-only'']
      in and_then
           (tb_call os self
              (CmdList [''wget'',
                 ''https://raw.githubusercontent.com/ocaml/opam/master/shell/install.sh'',
                 ''-O'', opam_install_sh]) no_kw w)
         (\<lambda>_ w1.
            let self1 = self\<lparr>tb_path_opam_root :=
                               Some (os_path_join (tb_path_opam self) ''.opam'')\<rparr>
            in and_then (os_mkdir (os_path_join (tb_path_opam self) ''.opam'') w1)
         (\<lambda>_ w2.
            let self2 = self1\<lparr>tb_path_opam := os_path_join (tb_path_opam self1) ''bin''\<rparr>
            in and_then (os_mkdir (tb_path_opam self2) w2)
         (\<lambda>_ w3. and_then (tb_call os self2 install_cmd no_kw w3)
         (\<lambda>_ w4. and_then (tb_call os self2 install_cmd no_kw w4)
         (\<lambda>out w5. and_then (attr_of out ''stdout'' w5)
         (\<lambda>c w6.
            case search_opam_binary (first_line (stdout c)) of
              None \<Rightarrow> (Inl (Exception ''Coult not find opam binary''), w6)
            | Some temp_path_opam \<Rightarrow>
                and_then
                  (shutil_copy temp_path_opam (os_path_join (tb_path_opam self2) ''opam'') w6)
                (\<lambda>_ w7.
                   let self3 = self2\<lparr>tb_path_opam :=
                                       os_path_join (tb_path_opam self2) ''opam''\<rparr>
                   in and_then
                        (tb_call os self3
                           (CmdList [tb_path_opam self3, ''init'', ''--bare'', ''--no-setup'',
                                     ''--root'', fmt_opt (tb_path_opam_root self3)])
                           no_kw w7)
                (\<lambda>_ w8. and_then (os_remove opam_install_sh w8)
                (\<lambda>_ w9. (Inr self3, w9)))))))))))"

definition setup_opam ::
  "os_iface \<Rightarrow> utils \<Rightarrow> testbed_cm \<Rightarrow> enter_locals \<Rightarrow> world
     \<Rightarrow> (exn + testbed_cm \<times> enter_locals) \<times> world" where
  "setup_opam os ut self loc w =
     and_then
       (if tb_temp_dir_opam self \<noteq> None then install_opam os self w else (Inr self, w))
       (\<lambda>self1 w1.
          if \<not> tb_has_set_up_opam self1
          then (let path_opam = os_path_abspath os w1 (tb_path_opam self1)
                in case shellenv loc ''PATH'' of
                     None \<Rightarrow> (Inl (KeyError ''PATH''), w1)
                   | Some path \<Rightarrow>
                       (case tb_path_opam_root self1 of
                          None \<Rightarrow> (Inl (AttributeError ''path_opam_root''), w1)
                        | Some root \<Rightarrow>
                            (let root1 = os_path_abspath os w1 root;
                                 env1 = (shellenv loc)
                                          (''PATH'' \<mapsto> os_path_dirname path_opam @ os_pathsep @ path,
                                           ''OPAMROOT'' \<mapsto> root1)
                             in case get_opam_switch_names ut path_opam env1 w1 of
                                  Inl e \<Rightarrow> (Inl e, w1)
                                | Inr names \<Rightarrow>
                                    (Inr (self1\<lparr>tb_has_set_up_opam := True,
                                                tb_path_opam := path_opam,
                                                tb_path_opam_root := Some root1,
                                                tb_exec := (tb_exec self1)\<lparr>kw_env := Some env1\<rparr>\<rparr>,
                                          loc\<lparr>shellenv := env1,
                                              opam_exec_cmd := Some path_opam,
                                              switch_list := Some names\<rparr>), w1))))
          else (Inr (self1, loc), w1))"

subsection \<open>Provisioning: one (repository, version) group\<close>

definition split_cmd :: "string \<Rightarrow> command" where
  "split_cmd cmd = CmdList (py_split (CHR '' '') cmd)"

definition required :: "string \<Rightarrow> 'a option \<Rightarrow> world \<Rightarrow> (exn + 'a) \<times> world" where
  "required key v w = (case v of None \<Rightarrow> (Inl (KeyError key), w) | Some x \<Rightarrow> (Inr x, w))"

text \<open>
  Lines 353 to 379: the dispatch on the version prefix and the test whether the
  environment is already there. The result \<open>True\<close> is the \<^verbatim>\<open>continue\<close> of the package
  and switch branches. The container branch has no \<^verbatim>\<open>continue\<close>: it removes the container
  that is there and goes on to the recipe.
\<close>

definition check_existing ::
  "os_iface \<Rightarrow> utils \<Rightarrow> testbed_cm \<Rightarrow> enter_locals \<Rightarrow> string \<Rightarrow> string \<Rightarrow> world
     \<Rightarrow> (exn + bool \<times> testbed_cm \<times> enter_locals) \<times> world" where
  "check_existing os ut self loc ver env_name w =
     (if startswith ver ''coq.''
      then and_then (setup_opam os ut self loc w)
             (\<lambda>(self1, loc1) w1.
                case switch_list loc1 of
                  None \<Rightarrow> (Inl (TypeError ''switch_list''), w1)
                | Some names \<Rightarrow> (Inr (env_name \<in> set names, self1, loc1), w1))
      else if startswith ver ''docker-coq.''
      then (let self1 = self\<lparr>tb_docker_container_name := Some env_name\<rparr>
            in case (case container_list loc of
                       None \<Rightarrow> get_docker_container_names ut (shellenv loc) w
                     | Some names \<Rightarrow> Inr names) of
                 Inl e \<Rightarrow> (Inl e, w)
               | Inr names \<Rightarrow>
                   (let loc1 = loc\<lparr>container_list := Some names\<rparr>
                    in if env_name \<in> set names
                       then and_then
                              (tb_call os self1 (split_cmd (''docker rm '' @ env_name)) no_kw w)
                              (\<lambda>_ w1. (Inr (False, self1, loc1), w1))
                       else (Inr (False, self1, loc1), w)))
      else and_then (setup_conda os ut self loc w)
             (\<lambda>(self1, loc1) w1.
                case env_list loc1 of
                  None \<Rightarrow> (Inl (TypeError ''env_list''), w1)
                | Some names \<Rightarrow> (Inr (env_name \<in> set names, self1, loc1), w1)))"

text \<open>Lines 384 to 468: the recipe, by the kind of the \<^verbatim>\<open>packages\<close> entry and then by the
  version prefix.\<close>

definition run_recipe ::
  "os_iface \<Rightarrow> utils \<Rightarrow> testbed_cm \<Rightarrow> enter_locals \<Rightarrow> string \<Rightarrow> string \<Rightarrow> string
     \<Rightarrow> install_spec \<Rightarrow> task_instance \<Rightarrow> world \<Rightarrow> (exn + testbed_cm) \<times> world" where
  "run_recipe os ut self loc repo_path ver env_name install setup_ref_instance w =
     (let pkgs = (case ins_packages install of None \<Rightarrow> [] | Some p \<Rightarrow> p)
      in if pkgs = ''requirements.txt''
         then and_then (required ''python'' (ins_python install) w)
              (\<lambda>python w0. and_then
                 (tb_call os self
                    (split_cmd (fmt_opt (exec_cmd loc) @ '' create -n '' @ env_name
                                  @ '' python='' @ python @ '' -y'')) no_kw w0)
              (\<lambda>_ w1. and_then
                 (ext_effect w1 (get_requirements ut setup_ref_instance (tb_testbed self) w1))
              (\<lambda>path_to_reqs w2. and_then
                 (tb_call os self
                    (CmdStr (''. '' @ fmt_opt (path_activate loc) @ '' '' @ env_name
                               @ '' && echo 'activate successful' && pip install -r ''
                               @ path_to_reqs))
                    (no_kw\<lparr>kw_shell := Some True\<rparr>) w2)
              (\<lambda>_ w3. and_then (os_remove path_to_reqs w3)
              (\<lambda>_ w4. (Inr self, w4))))))
         else if pkgs = ''environment.yml''
         then and_then
                (ext_effect w
                   (get_environment_yml ut setup_ref_instance env_name (tb_testbed self) w))
              (\<lambda>path_to_reqs w1. and_then
                 (if ins_no_use_env install = Some True
                  then and_then (required ''python'' (ins_python install) w1)
                       (\<lambda>python w0. and_then
                          (tb_call os self
                             (split_cmd (fmt_opt (exec_cmd loc) @ '' create -c conda-forge -n ''
                                           @ env_name @ '' python='' @ python @ '' -y''))
                             no_kw w0)
                       (\<lambda>_ w2.
                          tb_call os self
                            (split_cmd (fmt_opt (exec_cmd loc) @ '' env update -f ''
                                          @ path_to_reqs)) no_kw w2))
                  else tb_call os self
                         (split_cmd (fmt_opt (exec_cmd loc) @ '' env create --file ''
                                       @ path_to_reqs)) no_kw w1)
              (\<lambda>_ w3. and_then (os_remove path_to_reqs w3)
              (\<lambda>_ w4. (Inr self, w4))))
         else if startswith ver ''coq.''
         then and_then
                (case tb_path_opam_root self of
                   None \<Rightarrow> (Inl (AttributeError ''path_opam_root''), w)
                 | Some root \<Rightarrow> (Inr root, w))
              (\<lambda>root w0.
                 let root_arg = (if root \<noteq> [] then ''--root='' @ root else [])
                 in and_then (required ''ocaml'' (ins_ocaml install) w0)
              (\<lambda>ocaml w1. and_then
                 (tb_call os self
                    (split_cmd (fmt_opt (opam_exec_cmd loc) @ '' switch create -y '' @ root_arg
                                  @ '' '' @ env_name @ '' '' @ ocaml)) no_kw w1)
              (\<lambda>_ w2. and_then (required ''packages'' (ins_packages install) w2)
              (\<lambda>packages w3. and_then
                 (if packages \<noteq> []
                  then tb_call os self
                         (split_cmd (fmt_opt (opam_exec_cmd loc) @ '' install -y '' @ root_arg
                                       @ '' --switch='' @ env_name @ '' '' @ packages)) no_kw w3
                  else (Inr None, w3))
              (\<lambda>_ w4. and_then
                 (required ''deps_only_packages'' (ins_deps_only_packages install) w4)
              (\<lambda>deps_only w5. and_then
                 (if deps_only \<noteq> []
                  then tb_call os self
                         (split_cmd (fmt_opt (opam_exec_cmd loc) @ '' install -y --deps-only ''
                                       @ root_arg @ '' --switch='' @ env_name @ '' '' @ deps_only))
                         no_kw w5
                  else (Inr None, w5))
              (\<lambda>_ w6. (Inr self, w6))))))))
         else if startswith ver ''docker-coq.''
         then (let self1 = self\<lparr>tb_docker_container_name := Some env_name\<rparr>
               in and_then
                    (tb_call os self1
                       (split_cmd (''docker run -d --name '' @ env_name @ '' coqorg/coq:''
                                     @ drop (length ''docker-coq.'') ver @ '' -v '' @ repo_path
                                     @ '':/home/coq/workdir'')) no_kw w)
                    (\<lambda>_ w1. (Inr self1, w1)))
         else and_then (required ''python'' (ins_python install) w)
              (\<lambda>python w0. and_then
                 (tb_call os self
                    (split_cmd (fmt_opt (exec_cmd loc) @ '' create -n '' @ env_name
                                  @ '' python='' @ python @ '' '' @ pkgs @ '' -y'')) no_kw w0)
              (\<lambda>_ w1. (Inr self, w1))))"

text \<open>Lines 381 to 476: the recipe, then the extra \<^verbatim>\<open>pip_packages\<close>.\<close>

definition create_env ::
  "os_iface \<Rightarrow> utils \<Rightarrow> testbed_cm \<Rightarrow> enter_locals \<Rightarrow> string \<Rightarrow> string \<Rightarrow> string
     \<Rightarrow> install_spec \<Rightarrow> task_instance \<Rightarrow> world \<Rightarrow> (exn + testbed_cm) \<times> world" where
  "create_env os ut self loc repo_path ver env_name install setup_ref_instance w =
     and_then (run_recipe os ut self loc repo_path ver env_name install setup_ref_instance w)
       (\<lambda>self1 w1.
          case ins_pip_packages install of
            None \<Rightarrow> (Inr self1, w1)
          | Some pip_packages \<Rightarrow>
              and_then
                (tb_call os self1
                   (split_cmd (''. '' @ fmt_opt (path_activate loc) @ '' '' @ env_name
                                 @ '' && pip install '' @ pip_packages)) no_kw w1)
                (\<lambda>_ w2. (Inr self1, w2)))"

definition env_name_of :: "string \<Rightarrow> string \<Rightarrow> string" where
  "env_name_of repo_name ver = replace_slash repo_name @ ''__'' @ ver"

text \<open>Lines 344 to 351: the working tree is cloned unless its path exists.\<close>

definition clone_if_missing ::
  "utils \<Rightarrow> string \<Rightarrow> string \<Rightarrow> world \<Rightarrow> (exn + unit) \<times> world" where
  "clone_if_missing ut repo_name repo_path w =
     (if \<not> os_path_exists w repo_path
      then ext_effect w (clone_repo ut repo_name repo_path w)
      else (Inr (), w))"

text \<open>The body of the inner loop of \<^verbatim>\<open>__enter__\<close>, for one entry of
  \<^verbatim>\<open>MAP_VERSION_TO_INSTALL[repo]\<close>.\<close>

definition setup_version ::
  "os_iface \<Rightarrow> utils \<Rightarrow> testbed_cm \<Rightarrow> enter_locals \<Rightarrow> string
     \<Rightarrow> (string option \<times> task_instance) list \<Rightarrow> string \<times> install_spec \<Rightarrow> world
     \<Rightarrow> (exn + testbed_cm \<times> enter_locals) \<times> world" where
  "setup_version os ut self loc repo_name version_to_setup_ref entry w =
     (case entry of
        (ver, install) \<Rightarrow>
          (case map_of version_to_setup_ref (Some ver) of
             None \<Rightarrow> (Inr (self, loc), w)
           | Some setup_ref_instance \<Rightarrow>
               (let env_name = env_name_of repo_name ver;
                    repo_path = os_path_join (tb_testbed self) env_name
                in and_then (clone_if_missing ut repo_name repo_path w)
                   (\<lambda>_ w1. and_then (check_existing os ut self loc ver env_name w1)
                   (\<lambda>(skip, self1, loc1) w2.
                      if skip then (Inr (self1, loc1), w2)
                      else and_then
                             (create_env os ut self1 loc1 repo_path ver env_name install
                                setup_ref_instance w2)
                             (\<lambda>self2 w3. (Inr (self2, loc1), w3)))))))"

fun versions_loop ::
  "os_iface \<Rightarrow> utils \<Rightarrow> testbed_cm \<Rightarrow> enter_locals \<Rightarrow> string
     \<Rightarrow> (string option \<times> task_instance) list \<Rightarrow> (string \<times> install_spec) list \<Rightarrow> world
     \<Rightarrow> (exn + testbed_cm \<times> enter_locals) \<times> world" where
  "versions_loop os ut self loc repo_name version_to_setup_ref [] w = (Inr (self, loc), w)"
| "versions_loop os ut self loc repo_name version_to_setup_ref (entry # rest) w =
     and_then (setup_version os ut self loc repo_name version_to_setup_ref entry w)
       (\<lambda>(self1, loc1) w1.
          versions_loop os ut self1 loc1 repo_name version_to_setup_ref rest w1)"

fun repos_loop ::
  "os_iface \<Rightarrow> constants \<Rightarrow> utils \<Rightarrow> testbed_cm \<Rightarrow> enter_locals \<Rightarrow> setup_refs \<Rightarrow> world
     \<Rightarrow> (exn + testbed_cm \<times> enter_locals) \<times> world" where
  "repos_loop os cs ut self loc [] w = (Inr (self, loc), w)"
| "repos_loop os cs ut self loc ((repo_name, version_to_setup_ref) # rest) w =
     and_then
       (case MAP_REPO_TO_INSTALL cs repo_name of
          None \<Rightarrow> (Inr None, w)
        | Some install_cmd \<Rightarrow> tb_call os self install_cmd no_kw w)
       (\<lambda>_ w1.
          case MAP_VERSION_TO_INSTALL cs repo_name of
            None \<Rightarrow> (Inl (KeyError repo_name), w1)
          | Some specs \<Rightarrow>
              and_then (versions_loop os ut self loc repo_name version_to_setup_ref specs w1)
                (\<lambda>(self1, loc1) w2. repos_loop os cs ut self1 loc1 rest w2))"

definition TestbedContextManager_enter ::
  "os_iface \<Rightarrow> constants \<Rightarrow> utils \<Rightarrow> testbed_cm \<Rightarrow> world \<Rightarrow> (exn + testbed_cm) \<times> world" where
  "TestbedContextManager_enter os cs ut self w =
     (let self0 = self\<lparr>tb_exec := (tb_exec self)\<lparr>kw_env := Some (os_environ os)\<rparr>,
                       tb_docker_container_name := None\<rparr>;
          loc0 = \<lparr>shellenv = os_environ os, path_activate = None, exec_cmd = None,
                  env_list = None, opam_exec_cmd = None, switch_list = None,
                  container_list = None\<rparr>
      in and_then (repos_loop os cs ut self0 loc0 (tb_setup_refs self0) w)
           (\<lambda>(self1, loc1) w1. (Inr self1, w1)))"

section \<open>A concrete host, task instance and task environment\<close>

text \<open>A host whose every command exits with the given return code after the given number
  of seconds, one task instance with its install specification, and the task environment
  the constructor builds for it. The theorems below are instantiated at them.\<close>

definition os_exiting :: "int \<Rightarrow> nat \<Rightarrow> os_iface" where
  "os_exiting rc secs =
     \<lparr>os_run = (\<lambda>cmd kw w. (Exited rc ''out'' ''err'' secs, w)),
      os_decode = (\<lambda>bytes. Some bytes),
      os_normpath = (\<lambda>p. p),
      os_environ = [''PATH'' \<mapsto> ''/usr/bin''],
      os_mkdtemp = (\<lambda>d w. ''/tmp/t''),
      platform_system = ''Linux'',
      platform_machine = ''x86_64'',
      exn_str = (\<lambda>e. ''error'')\<rparr>"

definition ex_instance :: task_instance where
  "ex_instance =
     \<lparr>instance_id = ''i1'', repo = ''a/b'', version = Version ''1.0'', base_commit = ''abc123'',
      created_at = ''2020'', model_name = None, test_cmd = Some ''pytest''\<rparr>"

definition ex_world :: world where
  "ex_world = \<lparr>files = [''/logs/i1.log'' \<mapsto> ''old''], dirs = {''/work/x''}, cwd = ''/work/x'', trace = []\<rparr>"

definition ex_spec :: install_spec where
  "ex_spec = \<lparr>ins_packages = None, ins_python = Some ''3.9'', ins_no_use_env = None,
     ins_pip_packages = None, ins_pre_install = None, ins_install = Some ''make'',
     ins_ocaml = None, ins_deps_only_packages = None\<rparr>"

definition ex_constants :: "install_spec \<Rightarrow> constants" where
  "ex_constants spec =
     \<lparr>APPLY_PATCH_FAIL = ''APPLY_PATCH_FAIL'', APPLY_PATCH_PASS = ''APPLY_PATCH_PASS'',
      INSTALL_FAIL = ''INSTALL_FAIL'', INSTALL_PASS = ''INSTALL_PASS'',
      INSTALL_TIMEOUT = ''INSTALL_TIMEOUT'', RESET_FAILED = ''RESET_FAILED'',
      TESTS_FAILED = ''TESTS_FAILED'', TESTS_PASSED = ''TESTS_PASSED'',
      TESTS_TIMEOUT = ''TESTS_TIMEOUT'', TESTS_ERROR = ''TESTS_ERROR'',
      MAP_REPO_TO_INSTALL = Map.empty,
      MAP_REPO_TO_TEST_FRAMEWORK = [''a/b'' \<mapsto> ''pytest''],
      MAP_VERSION_TO_INSTALL = [''a/b'' \<mapsto> [(''1.0'', spec)]]\<rparr>"

definition ex_env :: task_env where
  "ex_env =
     \<lparr>te_instance = ex_instance, te_testbed = ''/work/x'', te_testbed_name = ''x'',
      te_venv = ''v'', te_switch = ''v'', te_container = ''v'', te_conda_path = ''/c'',
      te_opam_path = ''/o/opam'', te_opam_root = None, te_log_file = ''/logs/i1.log'',
      te_is_eval = False,
      te_cmd_activate_then = (\<lambda>cmd. ''. /c/bin/activate v && echo 'activate successful' && '' @ cmd),
      te_timeout = Some 10, te_cwd = ''/work/x'',
      te_exec = \<lparr>kw_check = Some True, kw_shell = Some False, kw_capture_output = Some True,
                 kw_text = Some True, kw_env = Some [''PATH'' \<mapsto> ''/c/bin:/o:/usr/bin''],
                 kw_timeout = None\<rparr>\<rparr>"

text \<open>A host whose every command exits with code 0 after writing one byte that does not
  decode.\<close>

definition os_undecodable :: os_iface where
  "os_undecodable =
     \<lparr>os_run = (\<lambda>cmd kw w. (Exited 0 [CHR 0xFF] [] 0, w)),
      os_decode = (\<lambda>bytes. if CHR 0xFF \<in> set bytes then None else Some bytes),
      os_normpath = (\<lambda>p. p),
      os_environ = [''PATH'' \<mapsto> ''/usr/bin''],
      os_mkdtemp = (\<lambda>d w. ''/tmp/t''),
      platform_system = ''Linux'',
      platform_machine = ''x86_64'',
      exn_str = (\<lambda>e. case e of UnicodeDecodeError _ \<Rightarrow> ''undecodable'' | _ \<Rightarrow> ''error'')\<rparr>"

text \<open>The same specification with one pre-install command.\<close>

definition ex_spec_pre :: install_spec where
  "ex_spec_pre = ex_spec\<lparr>ins_pre_install := Some [''make deps'']\<rparr>"

text \<open>Tables, helper functions and task instances for the grouping, and the groups the
  constructor builds from them.\<close>

definition ex_utils :: utils where
  "ex_utils =
     \<lparr>clone_repo = (\<lambda>r p w. (Inr (), w)),
      get_conda_env_names = (\<lambda>c e w. Inr [''a__b__1.0'']),
      get_opam_switch_names = (\<lambda>c e w. Inr []),
      get_docker_container_names = (\<lambda>e w. Inr [''a__b__docker-coq.8.18'']),
      get_environment_yml = (\<lambda>i n t w. (Inr ''/work/environment.yml'', w)),
      get_requirements = (\<lambda>i t w. (Inr ''/work/requirements.txt'', w)),
      get_test_directives = (\<lambda>i. [''t.py''])\<rparr>"

definition ex_tables :: constants where
  "ex_tables = (ex_constants ex_spec)
     \<lparr>MAP_REPO_TO_TEST_FRAMEWORK := [''a/b'' \<mapsto> ''pytest'', ''c/d'' \<mapsto> ''tox''],
      MAP_VERSION_TO_INSTALL :=
        [''a/b'' \<mapsto> [(''1.0'', ex_spec), (''2.0'', ex_spec)], ''c/d'' \<mapsto> [(''1.0'', ex_spec)]]\<rparr>"

definition ex_task :: "string \<Rightarrow> string \<Rightarrow> version_entry \<Rightarrow> string \<Rightarrow> task_instance" where
  "ex_task ident r v created =
     \<lparr>instance_id = ident, repo = r, version = v, base_commit = ''abc123'',
      created_at = created, model_name = None, test_cmd = None\<rparr>"

definition ex_tasks :: "task_instance list" where
  "ex_tasks =
     [ex_task ''i1'' ''a/b'' (Version ''1.0'') ''2020'',
      ex_task ''i2'' ''a/b'' Null ''2021'',
      ex_task ''i3'' ''c/d'' (Version ''1.0'') ''2022'',
      ex_task ''i4'' ''a/b'' (Version ''9.9'') ''2023'',
      ex_task ''i5'' ''a/b'' (Version ''1.0'') ''2024'',
      ex_task ''i6'' ''a/b'' Absent ''2019'']"

definition ex_groups :: grouped where
  "ex_groups =
     [(''a/b'',
       [(Some ''1.0'',
         [with_test_cmd ex_tables ex_utils (ex_task ''i5'' ''a/b'' (Version ''1.0'') ''2024''),
          with_test_cmd ex_tables ex_utils (ex_task ''i1'' ''a/b'' (Version ''1.0'') ''2020'')])]),
      (''c/d'',
       [(Some ''1.0'',
         [with_test_cmd ex_tables ex_utils (ex_task ''i3'' ''c/d'' (Version ''1.0'') ''2022'')])])]"

text \<open>The same host as \<open>os_exiting 0 0\<close>, with three names for temporary directories,
  handed out in this order.\<close>

definition ex_host :: os_iface where
  "ex_host = (os_exiting 0 0)
     \<lparr>os_mkdtemp := (\<lambda>d w. if ''/tmp/a'' \<notin> dirs w then ''/tmp/a''
                          else if ''/tmp/b'' \<notin> dirs w then ''/tmp/b'' else ''/tmp/c'')\<rparr>"








section \<open>Facts about the task environment\<close>

lemma os_path_join_last:
  "b \<noteq> [] \<Longrightarrow> last (os_path_join a b) = last b"
  by (simp add: os_path_join_def)

lemma resolve_last: "p \<noteq> [] \<Longrightarrow> last (resolve w p) = last p"
  by (simp add: resolve_def os_path_join_last)

lemma init_fields:
  assumes "TaskEnvContextManager_init os inst testbed venv switch container log_dir conda_path
             opam_path opam_root timeout is_eval w0 = Inr self"
  shows "te_log_file self =
           os_path_join log_dir
             (instance_id inst
                @ (if is_eval then ''.'' @ fmt_opt (model_name inst) @ ''.eval.log''
                   else ''.log''))
         \<and> (is_eval \<longrightarrow> model_name inst \<noteq> None)
         \<and> kw_timeout (te_exec self) = None \<and> kw_check (te_exec self) = Some True
         \<and> te_instance self = inst \<and> te_testbed self = testbed \<and> te_venv self = venv
         \<and> te_is_eval self = is_eval \<and> te_timeout self = timeout
         \<and> kw_text (te_exec self) = Some True \<and> kw_capture_output (te_exec self) = Some True
         \<and> kw_shell (te_exec self) = Some False"
proof (cases "is_eval")
  case True
  then show ?thesis
    using assms unfolding TaskEnvContextManager_init_def
    by (cases "model_name inst"; cases "version inst"; cases "os_environ os ''PATH''")
       (auto simp: fmt_opt_def)
next
  case False
  then show ?thesis
    using assms unfolding TaskEnvContextManager_init_def
    by (cases "version inst"; cases "os_environ os ''PATH''") auto
qed

lemma init_log_file_last:
  assumes "TaskEnvContextManager_init os inst testbed venv switch container log_dir conda_path
             opam_path opam_root timeout is_eval w0 = Inr self"
  shows "te_log_file self \<noteq> [] \<and> last (te_log_file self) = CHR ''g''"
  using init_fields [OF assms] by (simp add: os_path_join_def)

lemma init_exec:
  assumes "TaskEnvContextManager_init os inst testbed venv switch container log_dir conda_path
             opam_path opam_root timeout is_eval w0 = Inr self"
  shows "kw_timeout (te_exec self) = None \<and> kw_check (te_exec self) = Some True"
  using init_fields [OF assms] by simp

lemma patch_path_last:
  "patch_path_of self pt \<noteq> [] \<and> last (patch_path_of self pt) = CHR ''h''"
  by (simp add: patch_path_of_def os_path_join_def)

lemma init_paths_differ:
  assumes "TaskEnvContextManager_init os inst testbed venv switch container log_dir conda_path
             opam_path opam_root timeout is_eval w0 = Inr self"
  shows "resolve w (patch_path_of self pt) \<noteq> resolve w (te_log_file self)"
proof
  assume eq: "resolve w (patch_path_of self pt) = resolve w (te_log_file self)"
  have "last (resolve w (patch_path_of self pt)) = CHR ''h''"
    using patch_path_last [of self pt] by (simp add: resolve_last)
  moreover have "last (resolve w (te_log_file self)) = CHR ''g''"
    using init_log_file_last [OF assms] by (simp add: resolve_last)
  ultimately show False using eq by simp
qed

lemma cwd_after_run [simp]: "cwd (after_run c w w1) = cwd w"
  by (simp add: after_run_def)

lemma resolve_after_run [simp]: "resolve (after_run c w w1) p = resolve w p"
  by (simp add: resolve_def)

lemma resolve_write_file [simp]: "resolve (write_file q t w) p = resolve w p"
  by (simp add: resolve_def write_file_def)

lemma resolve_append_file [simp]: "resolve (append_file q t w) p = resolve w p"
  by (simp add: resolve_def append_file_def)

lemma files_after_run [simp]: "files (after_run c w w1) = files w1"
  by (simp add: after_run_def)

lemma resolve_files_update [simp]: "resolve (w\<lparr>files := f\<rparr>) p = resolve w p"
  by (simp add: resolve_def)

subsection \<open>run_tests_task\<close>

lemma run_tests_task_returns:
  "\<exists>b w'. run_tests_task os cs self inst w = (Inr b, w')"
  unfolding run_tests_task_def
  by (cases "run_tests_try os cs self inst w") (auto split: sum.splits exn.splits)

lemma run_tests_task_other_exception:
  assumes "run_tests_try os cs self inst w = (Inl e, wa)" "e \<noteq> TimeoutExpired"
  shows "run_tests_task os cs self inst w =
           (Inr False, append_file (te_log_file self) (TESTS_ERROR cs @ '': '' @ exn_str os e) wa)"
  using assms by (cases e) (simp_all add: run_tests_task_def)

lemma tests_args:
  assumes "TaskEnvContextManager_init os0 inst0 testbed venv switch container log_dir conda_path
             opam_path opam_root timeout is_eval w0 = Inr self"
  shows "merge_kw (te_exec self) (tests_kw self) =
           \<lparr>kw_check = Some False, kw_shell = Some True, kw_capture_output = Some True,
            kw_text = Some True, kw_env = kw_env (te_exec self), kw_timeout = Some timeout\<rparr>"
  using init_fields [OF assms]
  by (simp add: merge_kw_def tests_kw_def no_kw_def override_def)

lemma run_tests_try_unfold:
  assumes "test_cmd inst = Some tc"
  shows "run_tests_try os cs self inst w =
      and_then
        (te_call os self (CmdStr (te_cmd_activate_then self tc)) True (tests_kw self)
           (append_file (te_log_file self)
              (''Test Script: '' @ te_cmd_activate_then self tc @ '';'' @ [CHR 0x0A]) w))
        (\<lambda>out_test w2.
           and_then
             (attr_of out_test ''stdout''
                (append_file (te_log_file self) (''Output:'' @ [CHR 0x0A]) w2))
             (\<lambda>c w3. (Inr True,
                append_file (te_log_file self)
                  (stdout c @ stderr c
                     @ (if returncode c \<noteq> 0 then [CHR 0x0A] @ TESTS_FAILED cs @ [CHR 0x0A]
                        else [CHR 0x0A] @ TESTS_PASSED cs @ [CHR 0x0A])) w3)))"
  using assms by (simp add: run_tests_try_def Let_def)

text \<open>
  Claim C6, as amended. The task environment is one built by the constructor, so its
  commands are run in text mode; \<open>timeout\<close> is the stage timeout it was built with. Let
  the operating system report an outcome for the test command of the instance. When the
  command exits with code 0 before the timeout and its captured output decodes,
  \<^verbatim>\<open>run_tests_task\<close> returns \<open>True\<close> and appends the output followed by the \<^verbatim>\<open>TESTS_PASSED\<close>
  token to the log. When it exits with a non-zero code (such as 1) before the timeout and
  its output decodes, the call still returns \<open>True\<close> and appends the \<^verbatim>\<open>TESTS_FAILED\<close> token.
  When it is still running at the timeout, the call returns \<open>False\<close> and appends the
  \<^verbatim>\<open>TESTS_TIMEOUT\<close> record. Every other exception is caught, gives \<open>False\<close> and a
  \<^verbatim>\<open>TESTS_ERROR\<close> record with the text of the exception: output that does not decode
  (whatever the exit code), a command that cannot be started, an instance without a test
  command, and in general whatever the body of the \<^verbatim>\<open>try\<close> raises. In every case the call
  returns a boolean: no exception leaves it.
\<close>

theorem run_tests_task_outcomes:
  fixes os cs self inst w tc rc out err secs wx out1 err1 t m timeout
  defines "logf \<equiv> te_log_file self"
  defines "cmd \<equiv> te_cmd_activate_then self tc"
  defines "args \<equiv> \<lparr>kw_check = Some False, kw_shell = Some True, kw_capture_output = Some True,
                    kw_text = Some True, kw_env = kw_env (te_exec self),
                    kw_timeout = Some timeout\<rparr>"
  defines "w1 \<equiv> append_file logf (''Test Script: '' @ cmd @ '';'' @ [CHR 0x0A]) w"
  defines "w2 \<equiv> after_run (CmdStr cmd) w1 wx"
  defines "w3 \<equiv> append_file logf (''Output:'' @ [CHR 0x0A]) w2"
  defines "in_time \<equiv> (timeout = None \<or> (\<exists>limit. timeout = Some limit \<and> secs < limit))"
  assumes init: "TaskEnvContextManager_init os0 inst0 testbed venv switch container log_dir
                   conda_path opam_path opam_root timeout is_eval w0 = Inr self"
  shows
    "(test_cmd inst = Some tc \<and> os_run os (CmdStr cmd) args w1 = (Exited 0 out err secs, wx)
        \<and> in_time \<and> os_decode os out = Some out1 \<and> os_decode os err = Some err1 \<longrightarrow>
        run_tests_task os cs self inst w =
          (Inr True,
           append_file logf (out1 @ err1 @ [CHR 0x0A] @ TESTS_PASSED cs @ [CHR 0x0A]) w3))
     \<and> (test_cmd inst = Some tc \<and> os_run os (CmdStr cmd) args w1 = (Exited rc out err secs, wx)
        \<and> rc \<noteq> 0 \<and> in_time \<and> os_decode os out = Some out1 \<and> os_decode os err = Some err1 \<longrightarrow>
        run_tests_task os cs self inst w =
          (Inr True,
           append_file logf (out1 @ err1 @ [CHR 0x0A] @ TESTS_FAILED cs @ [CHR 0x0A]) w3))
     \<and> (test_cmd inst = Some tc \<and> os_run os (CmdStr cmd) args w1 = (Exited rc out err secs, wx)
        \<and> timeout = Some t \<and> t \<le> secs \<longrightarrow>
        run_tests_task os cs self inst w =
          (Inr False,
           append_file logf (TESTS_TIMEOUT cs @ '' after '' @ str_of_nat t @ '' seconds''
                               @ [CHR 0x0A]) w2))
     \<and> (test_cmd inst = Some tc \<and> os_run os (CmdStr cmd) args w1 = (Exited rc out err secs, wx)
        \<and> in_time \<and> os_decode os out = None \<longrightarrow>
        run_tests_task os cs self inst w =
          (Inr False,
           append_file logf (TESTS_ERROR cs @ '': '' @ exn_str os (UnicodeDecodeError out)) w2))
     \<and> (test_cmd inst = Some tc \<and> os_run os (CmdStr cmd) args w1 = (Exited rc out err secs, wx)
        \<and> in_time \<and> os_decode os out = Some out1 \<and> os_decode os err = None \<longrightarrow>
        run_tests_task os cs self inst w =
          (Inr False,
           append_file logf (TESTS_ERROR cs @ '': '' @ exn_str os (UnicodeDecodeError err)) w2))
     \<and> (test_cmd inst = Some tc \<and> os_run os (CmdStr cmd) args w1 = (SpawnFailed m, wx) \<longrightarrow>
        run_tests_task os cs self inst w =
          (Inr False, append_file logf (TESTS_ERROR cs @ '': '' @ exn_str os (OSError m)) w2))
     \<and> (test_cmd inst = None \<longrightarrow>
        run_tests_task os cs self inst w =
          (Inr False,
           append_file logf (TESTS_ERROR cs @ '': '' @ exn_str os (KeyError ''test_cmd'')) w))
     \<and> (\<forall>e wa. run_tests_try os cs self inst w = (Inl e, wa) \<and> e \<noteq> TimeoutExpired \<longrightarrow>
        run_tests_task os cs self inst w =
          (Inr False, append_file logf (TESTS_ERROR cs @ '': '' @ exn_str os e) wa))
     \<and> (\<exists>b w'. run_tests_task os cs self inst w = (Inr b, w'))"
proof -
  have to: "timed_out args secs = (\<not> in_time)"
    by (cases timeout) (auto simp: timed_out_def args_def in_time_def)
  have sub: "subprocess_run os (CmdStr cmd) args w1 =
      (case p of
         SpawnFailed m \<Rightarrow> (Inl (OSError m), w2)
       | Exited rc out err secs \<Rightarrow>
           if timed_out args secs then (Inl TimeoutExpired, w2)
           else (case os_decode os out of
                   None \<Rightarrow> (Inl (UnicodeDecodeError out), w2)
                 | Some out1 \<Rightarrow>
                     (case os_decode os err of
                        None \<Rightarrow> (Inl (UnicodeDecodeError err), w2)
                      | Some err1 \<Rightarrow>
                          (Inr \<lparr>returncode = rc, stdout = out1, stderr = err1\<rparr>, w2))))"
    if "os_run os (CmdStr cmd) args w1 = (p, wx)" for p
    using that
    by (simp add: subprocess_run_def w2_def decode_output_def args_def
        split: proc.splits option.splits)
  have call: "te_call os self (CmdStr cmd) True (tests_kw self) w1 =
      (case subprocess_run os (CmdStr cmd) args w1 of
         (Inr output, wa) \<Rightarrow> (Inr (Some output), wa)
       | (Inl e, wa) \<Rightarrow> (Inl e, wa))"
    unfolding te_call_def ExecWrapper_call_def tests_args [OF init] args_def
    by (auto split: prod.splits sum.splits exn.splits)
  have body: "run_tests_try os cs self inst w =
      and_then (te_call os self (CmdStr cmd) True (tests_kw self) w1)
        (\<lambda>out_test w2.
           and_then (attr_of out_test ''stdout'' (append_file logf (''Output:'' @ [CHR 0x0A]) w2))
             (\<lambda>c w3. (Inr True,
                append_file logf
                  (stdout c @ stderr c
                     @ (if returncode c \<noteq> 0 then [CHR 0x0A] @ TESTS_FAILED cs @ [CHR 0x0A]
                        else [CHR 0x0A] @ TESTS_PASSED cs @ [CHR 0x0A])) w3)))"
    if "test_cmd inst = Some tc"
    using run_tests_try_unfold [OF that] by (simp add: cmd_def w1_def logf_def)
  have c1: "test_cmd inst = Some tc \<and> os_run os (CmdStr cmd) args w1 = (Exited 0 out err secs, wx)
        \<and> in_time \<and> os_decode os out = Some out1 \<and> os_decode os err = Some err1 \<longrightarrow>
        run_tests_task os cs self inst w =
          (Inr True,
           append_file logf (out1 @ err1 @ [CHR 0x0A] @ TESTS_PASSED cs @ [CHR 0x0A]) w3)"
    by (auto simp: run_tests_task_def body call sub to and_then_def attr_of_def w3_def)
  have c2: "test_cmd inst = Some tc \<and> os_run os (CmdStr cmd) args w1 = (Exited rc out err secs, wx)
        \<and> rc \<noteq> 0 \<and> in_time \<and> os_decode os out = Some out1 \<and> os_decode os err = Some err1 \<longrightarrow>
        run_tests_task os cs self inst w =
          (Inr True,
           append_file logf (out1 @ err1 @ [CHR 0x0A] @ TESTS_FAILED cs @ [CHR 0x0A]) w3)"
    by (auto simp: run_tests_task_def body call sub to and_then_def attr_of_def w3_def)
  have c3: "test_cmd inst = Some tc \<and> os_run os (CmdStr cmd) args w1 = (Exited rc out err secs, wx)
        \<and> timeout = Some t \<and> t \<le> secs \<longrightarrow>
        run_tests_task os cs self inst w =
          (Inr False,
           append_file logf (TESTS_TIMEOUT cs @ '' after '' @ str_of_nat t @ '' seconds''
                               @ [CHR 0x0A]) w2)"
    using init_fields [OF init]
    by (auto simp: run_tests_task_def body call sub to and_then_def in_time_def fmt_opt_nat_def
        logf_def)
  have c4: "test_cmd inst = Some tc \<and> os_run os (CmdStr cmd) args w1 = (Exited rc out err secs, wx)
        \<and> in_time \<and> os_decode os out = None \<longrightarrow>
        run_tests_task os cs self inst w =
          (Inr False,
           append_file logf (TESTS_ERROR cs @ '': '' @ exn_str os (UnicodeDecodeError out)) w2)"
    by (auto simp: run_tests_task_def body call sub to and_then_def logf_def)
  have c5: "test_cmd inst = Some tc \<and> os_run os (CmdStr cmd) args w1 = (Exited rc out err secs, wx)
        \<and> in_time \<and> os_decode os out = Some out1 \<and> os_decode os err = None \<longrightarrow>
        run_tests_task os cs self inst w =
          (Inr False,
           append_file logf (TESTS_ERROR cs @ '': '' @ exn_str os (UnicodeDecodeError err)) w2)"
    by (auto simp: run_tests_task_def body call sub to and_then_def logf_def)
  have c6: "test_cmd inst = Some tc \<and> os_run os (CmdStr cmd) args w1 = (SpawnFailed m, wx) \<longrightarrow>
        run_tests_task os cs self inst w =
          (Inr False, append_file logf (TESTS_ERROR cs @ '': '' @ exn_str os (OSError m)) w2)"
    by (auto simp: run_tests_task_def body call sub and_then_def logf_def)
  have c7: "test_cmd inst = None \<longrightarrow>
        run_tests_task os cs self inst w =
          (Inr False,
           append_file logf (TESTS_ERROR cs @ '': '' @ exn_str os (KeyError ''test_cmd'')) w)"
    by (simp add: run_tests_task_def run_tests_try_def logf_def)
  have c8: "\<forall>e wa. run_tests_try os cs self inst w = (Inl e, wa) \<and> e \<noteq> TimeoutExpired \<longrightarrow>
        run_tests_task os cs self inst w =
          (Inr False, append_file logf (TESTS_ERROR cs @ '': '' @ exn_str os e) wa)"
    using run_tests_task_other_exception [of os cs self inst w] by (simp add: logf_def)
  show ?thesis
    using c1 c2 c3 c4 c5 c6 c7 c8 run_tests_task_returns [of os cs self inst w] by blast
qed

lemma ex_env_init:
  "TaskEnvContextManager_init (os_exiting 0 0) ex_instance ''/work/x'' ''v'' ''v'' ''v'' ''/logs''
     ''/c'' ''/o/opam'' None (Some 10) False ex_world = Inr ex_env"
  by (simp add: TaskEnvContextManager_init_def ex_env_def ex_instance_def ex_world_def
      os_exiting_def os_path_join_def startswith_def endswith_def py_split_def os_pathsep_def
      os_path_dirname_def rstrip_def)

lemmas ex_defs = ex_env_def ex_instance_def ex_world_def ex_constants_def ex_spec_def os_exiting_def

lemmas eval_defs = lookup_install_def and_then_def te_call_def ExecWrapper_call_def
  subprocess_run_def decode_output_def merge_kw_def override_def no_kw_def kw_timeout_shell_def
  timed_out_def after_run_def attr_of_def append_file_def resolve_def os_path_join_def
  startswith_def

theorem run_tests_task_outcomes_witness:
  "test_cmd ex_instance = Some ''pytest''
   \<and> fst (run_tests_task (os_exiting 0 0) (ex_constants ex_spec) ex_env ex_instance ex_world)
       = Inr True
   \<and> files (snd (run_tests_task (os_exiting 0 0) (ex_constants ex_spec) ex_env ex_instance
                   ex_world)) ''/logs/i1.log''
       = Some (''oldTest Script: . /c/bin/activate v && echo 'activate successful' && pytest;''
               @ [CHR 0x0A] @ ''Output:'' @ [CHR 0x0A] @ ''outerr'' @ [CHR 0x0A]
               @ ''TESTS_PASSED'' @ [CHR 0x0A])"
proof -
  let ?cmd = "te_cmd_activate_then ex_env ''pytest''"
  let ?w1 = "append_file (te_log_file ex_env) (''Test Script: '' @ ?cmd @ '';'' @ [CHR 0x0A])
               ex_world"
  have tc: "test_cmd ex_instance = Some ''pytest''"
    by (simp add: ex_instance_def)
  have prems: "test_cmd ex_instance = Some ''pytest''
     \<and> os_run (os_exiting 0 0) (CmdStr ?cmd)
         \<lparr>kw_check = Some False, kw_shell = Some True, kw_capture_output = Some True,
          kw_text = Some True, kw_env = kw_env (te_exec ex_env), kw_timeout = Some (Some 10)\<rparr>
         ?w1
       = (Exited 0 ''out'' ''err'' 0, ?w1)
     \<and> (Some (10::nat) = None \<or> (\<exists>limit. Some (10::nat) = Some limit \<and> 0 < limit))
     \<and> os_decode (os_exiting 0 0) ''out'' = Some ''out''
     \<and> os_decode (os_exiting 0 0) ''err'' = Some ''err''"
    by (simp add: tc os_exiting_def)
  from run_tests_task_outcomes [OF ex_env_init, THEN conjunct1, rule_format, OF prems]
  have "run_tests_task (os_exiting 0 0) (ex_constants ex_spec) ex_env ex_instance ex_world =
      (Inr True,
       append_file (te_log_file ex_env)
         (''out'' @ ''err'' @ [CHR 0x0A] @ TESTS_PASSED (ex_constants ex_spec) @ [CHR 0x0A])
         (append_file (te_log_file ex_env) (''Output:'' @ [CHR 0x0A])
            (after_run (CmdStr ?cmd) ?w1 ?w1)))" .
  then show ?thesis
    using tc
    by (simp add: append_file_def after_run_def resolve_def os_path_join_def startswith_def
        ex_env_def ex_world_def ex_constants_def)
qed

text \<open>
  Claim C6 as it is stated, with exit code 0 alone giving \<open>True\<close> and \<^verbatim>\<open>TESTS_PASSED\<close>, fails
  on a host whose test command exits with code 0 after writing a byte that does not decode:
  \<^verbatim>\<open>subprocess.run\<close> raises while it reads the output, the handler for \<^verbatim>\<open>Exception\<close> logs
  \<^verbatim>\<open>TESTS_ERROR\<close>, and the call returns \<open>False\<close>.
\<close>

theorem run_tests_task_undecodable_output:
  "os_run os_undecodable = (\<lambda>cmd kw w. (Exited 0 [CHR 0xFF] [] 0, w))
   \<and> os_decode os_undecodable [CHR 0xFF] = None
   \<and> fst (run_tests_task os_undecodable (ex_constants ex_spec) ex_env ex_instance ex_world)
       = Inr False
   \<and> files (snd (run_tests_task os_undecodable (ex_constants ex_spec) ex_env ex_instance
                   ex_world)) ''/logs/i1.log''
       = Some (''oldTest Script: . /c/bin/activate v && echo 'activate successful' && pytest;''
               @ [CHR 0x0A] @ ''TESTS_ERROR: undecodable'')"
  by (simp add: run_tests_task_def run_tests_try_def tests_kw_def eval_defs ex_defs
      os_undecodable_def)

text \<open>The timeout path on the concrete host: a command that runs for the 10 seconds of the
  stage timeout.\<close>

lemma run_tests_task_timeout_example:
  "fst (run_tests_task (os_exiting 0 10) (ex_constants ex_spec) ex_env ex_instance ex_world)
       = Inr False
   \<and> files (snd (run_tests_task (os_exiting 0 10) (ex_constants ex_spec) ex_env ex_instance
                   ex_world)) ''/logs/i1.log''
       = Some (''oldTest Script: . /c/bin/activate v && echo 'activate successful' && pytest;''
               @ [CHR 0x0A] @ ''TESTS_TIMEOUT after 10 seconds'' @ [CHR 0x0A])"
  by (simp add: run_tests_task_def run_tests_try_def tests_kw_def eval_defs ex_defs
      fmt_opt_nat_def str_of_nat.simps)

lemma patch_run:
  assumes "kw_timeout args = None" "kw_text args = Some True"
  shows "ExecWrapper_call os args c False patch_kw w =
     (case os_run os c (merge_kw args patch_kw) w of
        (Exited rc out err secs, wx) \<Rightarrow>
          (case os_decode os out of
             None \<Rightarrow> (Inl (UnicodeDecodeError out), after_run c w wx)
           | Some out1 \<Rightarrow>
               (case os_decode os err of
                  None \<Rightarrow> (Inl (UnicodeDecodeError err), after_run c w wx)
                | Some err1 \<Rightarrow>
                    (Inr (Some \<lparr>returncode = rc, stdout = out1, stderr = err1\<rparr>),
                     after_run c w wx)))
      | (SpawnFailed m, wx) \<Rightarrow> (Inl (OSError m), after_run c w wx))"
  using assms
  by (auto simp: ExecWrapper_call_def subprocess_run_def decode_output_def merge_kw_def
      patch_kw_def no_kw_def override_def timed_out_def
      split: prod.splits proc.splits option.splits)

subsection \<open>apply_patch\<close>

text \<open>
  Claim C8. Called with \<^verbatim>\<open>patch = None\<close>, \<^verbatim>\<open>apply_patch\<close> returns \<open>False\<close>; the log file
  holds what it held before followed by the \<^verbatim>\<open>APPLY_PATCH_FAIL\<close> record; every other file
  is as it was (so no temporary patch file is written), and so are the directories, the
  working directory and the list of commands run (none is run).
\<close>

theorem apply_patch_none:
  fixes os cs self patch_type revert w
  defines "r \<equiv> apply_patch os cs self None patch_type revert w"
  defines "logp \<equiv> resolve w (te_log_file self)"
  shows
    "fst r = Inr False
     \<and> files (snd r) logp =
         Some ((case files w logp of None \<Rightarrow> [] | Some old \<Rightarrow> old)
               @ APPLY_PATCH_FAIL cs @ ''; Prediction patch is `None`'')
     \<and> (\<forall>p. p \<noteq> logp \<longrightarrow> files (snd r) p = files w p)
     \<and> dirs (snd r) = dirs w \<and> cwd (snd r) = cwd w \<and> trace (snd r) = trace w"
  by (auto simp: r_def logp_def apply_patch_def append_file_def split: option.splits)

theorem apply_patch_none_witness:
  "fst (apply_patch (os_exiting 0 0) (ex_constants ex_spec) ex_env None ''eval'' False ex_world)
     = Inr False
   \<and> files (snd (apply_patch (os_exiting 0 0) (ex_constants ex_spec) ex_env None ''eval'' False
                   ex_world)) ''/work/temp_i1_eval.patch'' = None
   \<and> trace (snd (apply_patch (os_exiting 0 0) (ex_constants ex_spec) ex_env None ''eval'' False
                   ex_world)) = []"
proof -
  have ne: "''/work/temp_i1_eval.patch'' \<noteq> resolve ex_world (te_log_file ex_env)"
    by (simp add: resolve_def os_path_join_def startswith_def ex_env_def ex_world_def)
  from apply_patch_none [of "os_exiting 0 0" "ex_constants ex_spec" ex_env "''eval''" False
      ex_world] ne
  show ?thesis
    by (simp add: ex_world_def)
qed

text \<open>Whenever \<^verbatim>\<open>apply_patch\<close> returns, the temporary patch file is not on disk.\<close>

lemma apply_patch_returns_without_temp_file:
  assumes init: "TaskEnvContextManager_init os0 inst testbed venv switch container log_dir
                   conda_path opam_path opam_root timeout is_eval w0 = Inr self"
  assumes ret: "apply_patch os cs self (Some patch_text) patch_type revert w = (Inr b, w')"
  shows "files w' (resolve w (patch_path_of self patch_type)) = None"
  using init_paths_differ [OF init, of w patch_type] init_fields [OF init] ret
  by (auto simp: apply_patch_def te_call_def patch_run and_then_def os_remove_def
      attr_of_def append_file_def Let_def split: prod.splits proc.splits if_splits option.splits)

text \<open>
  Claim C7. For a task environment built by the constructor and a patch text that is not
  \<^verbatim>\<open>None\<close>: whenever the patch-apply command exits, with return code 0 (success) or any
  other (failure), and its output is returned to the caller (it decodes as text), the
  temporary patch file is not on disk after \<^verbatim>\<open>apply_patch\<close>; unless the command itself
  removed the file, the call returns, with \<open>True\<close> exactly on return code 0. And whenever
  the call returns at all, the temporary patch file is not on disk.
\<close>

theorem apply_patch_removes_temp_file:
  fixes os cs self patch_text patch_type revert w
  defines "ppath \<equiv> patch_path_of self patch_type"
  defines "r \<equiv> apply_patch os cs self (Some patch_text) patch_type revert w"
  assumes init: "TaskEnvContextManager_init os0 inst testbed venv switch container log_dir
                   conda_path opam_path opam_root timeout is_eval w0 = Inr self"
  assumes run: "os_run os (apply_cmd_of ppath revert) (merge_kw (te_exec self) patch_kw)
                  (write_file ppath patch_text w) = (Exited rc out err secs, wx)"
  assumes dec: "os_decode os out = Some out1" "os_decode os err = Some err1"
  shows "files (snd r) (resolve w ppath) = None
     \<and> (files wx (resolve w ppath) \<noteq> None \<longrightarrow> fst r = Inr (rc = 0))
     \<and> (\<forall>b w'. apply_patch os cs self (Some patch_text) patch_type revert w = (Inr b, w')
           \<longrightarrow> files w' (resolve w ppath) = None)"
proof -
  have "files (snd r) (resolve w ppath) = None
     \<and> (files wx (resolve w ppath) \<noteq> None \<longrightarrow> fst r = Inr (rc = 0))"
    using init_paths_differ [OF init, of w patch_type] init_fields [OF init] run dec
    by (auto simp: r_def ppath_def apply_patch_def te_call_def patch_run and_then_def
        os_remove_def attr_of_def append_file_def Let_def)
  then show ?thesis
    using apply_patch_returns_without_temp_file [OF init]
    by (auto simp: ppath_def)
qed

theorem apply_patch_removes_temp_file_witness:
  "files (snd (apply_patch (os_exiting 1 0) (ex_constants ex_spec) ex_env (Some ''diff'') ''eval''
                 False ex_world)) ''/work/temp_i1_eval.patch'' = None
   \<and> fst (apply_patch (os_exiting 1 0) (ex_constants ex_spec) ex_env (Some ''diff'') ''eval''
            False ex_world) = Inr False"
proof -
  have pp: "patch_path_of ex_env ''eval'' = ''/work/temp_i1_eval.patch''"
    by (simp add: patch_path_of_def ex_env_def ex_instance_def os_path_join_def
        os_path_dirname_def rstrip_def startswith_def endswith_def)
  have rs: "resolve ex_world ''/work/temp_i1_eval.patch'' = ''/work/temp_i1_eval.patch''"
    by (simp add: resolve_def os_path_join_def startswith_def)
  have run: "os_run (os_exiting 1 0) (apply_cmd_of (patch_path_of ex_env ''eval'') False)
       (merge_kw (te_exec ex_env) patch_kw)
       (write_file (patch_path_of ex_env ''eval'') ''diff'' ex_world)
     = (Exited 1 ''out'' ''err'' 0, write_file (patch_path_of ex_env ''eval'') ''diff'' ex_world)"
    by (simp add: os_exiting_def)
  have dec: "os_decode (os_exiting 1 0) ''out'' = Some ''out''"
    "os_decode (os_exiting 1 0) ''err'' = Some ''err''"
    by (simp_all add: os_exiting_def)
  have there: "files (write_file (patch_path_of ex_env ''eval'') ''diff'' ex_world)
      (resolve ex_world (patch_path_of ex_env ''eval'')) \<noteq> None"
    by (simp add: write_file_def)
  from apply_patch_removes_temp_file [OF ex_env_init run dec, of "ex_constants ex_spec"] there
  show ?thesis
    by (simp add: pp rs)
qed

subsection \<open>The log file on entry\<close>

lemma os_path_join_plain:
  assumes "a \<noteq> []" "\<not> endswith a ''/''" "\<not> startswith b ''/''"
  shows "os_path_join a b = a @ ''/'' @ b"
  using assms by (simp add: os_path_join_def)

lemma startswith_slash_append:
  "c \<noteq> CHR ''/'' \<Longrightarrow> startswith (x @ c # rest) ''/'' = startswith x ''/''"
  by (cases x) (simp_all add: startswith_def)

text \<open>
  Claim C10. For a task environment built by the constructor, the log file is
  \<^verbatim>\<open>os.path.join(log_dir, name)\<close> with \<^verbatim>\<open>name\<close> the instance id followed by \<^verbatim>\<open>.log\<close>, or by
  \<^verbatim>\<open>.<model>.eval.log\<close> in evaluation mode; for a log directory that is not empty and has no
  trailing slash, and an instance id with no leading slash, that is
  \<^verbatim>\<open>{log_dir}/{name}\<close>. Whatever the file held before, after \<^verbatim>\<open>__enter__\<close> it holds
  exactly the fresh metadata header (with the model line in evaluation mode): the file is
  opened in overwrite mode, so what a previous entry logged is gone.
\<close>

theorem enter_overwrites_log:
  fixes inst log_dir is_eval self w w'
  defines "name \<equiv> instance_id inst
                    @ (if is_eval then ''.'' @ fmt_opt (model_name inst) @ ''.eval.log''
                       else ''.log'')"
  assumes init: "TaskEnvContextManager_init os inst testbed venv switch container log_dir
                   conda_path opam_path opam_root timeout is_eval w0 = Inr self"
  assumes ent: "TaskEnvContextManager_enter self w = (Inr (), w')"
  shows "te_log_file self = os_path_join log_dir name
     \<and> (log_dir \<noteq> [] \<and> \<not> endswith log_dir ''/'' \<and> \<not> startswith (instance_id inst) ''/''
          \<longrightarrow> te_log_file self = log_dir @ ''/'' @ name)
     \<and> files w' (resolve w' (te_log_file self)) =
         Some (log_header self
               @ (if is_eval
                  then [CHR 0x09] @ ''- Evaluation Model: '' @ fmt_opt (model_name inst)
                         @ [CHR 0x0A]
                  else []))"
proof -
  note f = init_fields [OF init]
  have lf: "te_log_file self = os_path_join log_dir name"
    using f by (simp add: name_def)
  have st: "startswith name ''/'' = startswith (instance_id inst) ''/''"
    by (simp add: name_def startswith_slash_append)
  have plain: "log_dir \<noteq> [] \<and> \<not> endswith log_dir ''/'' \<and> \<not> startswith (instance_id inst) ''/''
          \<longrightarrow> te_log_file self = log_dir @ ''/'' @ name"
    using lf st by (simp add: os_path_join_plain)
  have content: "files w' (resolve w' (te_log_file self)) =
         Some (log_header self
               @ (if is_eval
                  then [CHR 0x09] @ ''- Evaluation Model: '' @ fmt_opt (model_name inst)
                         @ [CHR 0x0A]
                  else []))"
  proof (cases "resolve w (te_testbed self) \<in> dirs w")
    case False
    then show ?thesis
      using ent by (simp add: TaskEnvContextManager_enter_def os_chdir_def and_then_def)
  next
    case True
    show ?thesis
    proof (cases is_eval)
      case False
      then show ?thesis
        using ent True f
        by (auto simp: TaskEnvContextManager_enter_def os_chdir_def and_then_def Let_def
            write_file_def)
    next
      case ev: True
      then obtain m where m: "model_name inst = Some m"
        using f by auto
      show ?thesis
        using ent True f ev m
        by (auto simp: TaskEnvContextManager_enter_def os_chdir_def and_then_def Let_def
            write_file_def append_file_def fmt_opt_def resolve_def)
    qed
  qed
  show ?thesis using lf plain content by simp
qed

theorem enter_overwrites_log_witness:
  "files ex_world ''/logs/i1.log'' = Some ''old''
   \<and> te_log_file ex_env = ''/logs/i1.log''
   \<and> files (snd (TaskEnvContextManager_enter ex_env ex_world)) ''/logs/i1.log''
       = Some (''Task Metadata:'' @ [CHR 0x0A, CHR 0x09] @ ''- Instance ID: i1''
               @ [CHR 0x0A, CHR 0x09] @ ''- Testbed: /work/x'' @ [CHR 0x0A, CHR 0x09]
               @ ''- Virtual Env.: v'' @ [CHR 0x0A])"
proof -
  have ent: "TaskEnvContextManager_enter ex_env ex_world
      = (Inr (), snd (TaskEnvContextManager_enter ex_env ex_world))"
    by (simp add: TaskEnvContextManager_enter_def os_chdir_def and_then_def resolve_def
        os_path_join_def startswith_def ex_env_def ex_world_def)
  have rs: "resolve (snd (TaskEnvContextManager_enter ex_env ex_world)) ''/logs/i1.log''
      = ''/logs/i1.log''"
    by (simp add: resolve_def os_path_join_def startswith_def)
  have lf: "te_log_file ex_env = ''/logs/i1.log''"
    by (simp add: ex_env_def)
  have hd: "log_header ex_env = ''Task Metadata:'' @ [CHR 0x0A, CHR 0x09] @ ''- Instance ID: i1''
               @ [CHR 0x0A, CHR 0x09] @ ''- Testbed: /work/x'' @ [CHR 0x0A, CHR 0x09]
               @ ''- Virtual Env.: v'' @ [CHR 0x0A]"
    by (simp add: log_header_def ex_env_def ex_instance_def)
  have old: "files ex_world ''/logs/i1.log'' = Some ''old''"
    by (simp add: ex_world_def)
  from enter_overwrites_log [OF ex_env_init ent, THEN conjunct2, THEN conjunct2]
  have "files (snd (TaskEnvContextManager_enter ex_env ex_world))
          (resolve (snd (TaskEnvContextManager_enter ex_env ex_world)) (te_log_file ex_env))
        = Some (log_header ex_env)"
    by simp
  then show ?thesis
    using lf hd old by (simp add: rs)
qed

subsection \<open>run_install_task and the stage boundary\<close>

text \<open>
  Claim C1. The claim has a non-zero exit of the install command return \<open>False\<close> and
  append \<^verbatim>\<open>INSTALL_FAIL\<close>. The \<^verbatim>\<open>ExecWrapper\<close> of a task environment runs every command with
  \<^verbatim>\<open>check=True\<close>, and \<^verbatim>\<open>run_install_task\<close> does not override it: on the concrete host whose
  commands exit with code 1, for an instance whose specification declares an install
  command, the call raises \<^verbatim>\<open>CalledProcessError\<close> instead of returning, and the files (the
  log among them) are as they were, so no \<^verbatim>\<open>INSTALL_FAIL\<close> record is written.
\<close>

theorem run_install_task_nonzero_exit:
  "fst (run_install_task (os_exiting 1 0) (ex_constants ex_spec) ex_env ex_instance ex_world)
     = Inl (CalledProcessError 1 ''out'' ''err'')
   \<and> files (snd (run_install_task (os_exiting 1 0) (ex_constants ex_spec) ex_env ex_instance
                   ex_world)) = files ex_world"
  by (simp add: run_install_task_def run_install_try_def eval_defs ex_defs)

text \<open>
  Claim C3. The claim has no exception leave any of the four stages. With a pre-install
  command that exits with a non-zero code, \<^verbatim>\<open>run_install_task\<close> raises
  \<^verbatim>\<open>CalledProcessError\<close> (the pre-install loop stands outside every handler, and the
  command runs with \<^verbatim>\<open>check=True\<close>): nothing is logged and no boolean is returned.
\<close>

theorem run_install_task_pre_install_escapes:
  "fst (run_install_task (os_exiting 2 0) (ex_constants ex_spec_pre) ex_env ex_instance ex_world)
     = Inl (CalledProcessError 2 ''out'' ''err'')
   \<and> files (snd (run_install_task (os_exiting 2 0) (ex_constants ex_spec_pre) ex_env ex_instance
                   ex_world)) = files ex_world"
  by (simp add: run_install_task_def run_install_try_def eval_defs ex_defs ex_spec_pre_def)

text \<open>The stages whose body stands inside \<^verbatim>\<open>except Exception\<close> do keep every exception
  inside.\<close>

lemma reset_task_env_returns:
  "\<exists>b w'. reset_task_env os cs self inst w = (Inr b, w')"
  unfolding reset_task_env_def
  by (cases "reset_task_env_try os self inst w") (auto split: sum.splits)

section \<open>Facts about the testbed\<close>

subsection \<open>Grouping\<close>

lemma set_test_cmd_Inr:
  "set_test_cmd cs ut i = Inr i1 \<Longrightarrow>
     i1 = with_test_cmd cs ut i \<and> repo i1 = repo i \<and> version i1 = version i"
  by (auto simp: set_test_cmd_def with_test_cmd_def split: option.splits)

lemma with_test_cmd_keys [simp]:
  "repo (with_test_cmd cs ut i) = repo i" "version_key (with_test_cmd cs ut i) = version_key i"
  by (auto simp: with_test_cmd_def set_test_cmd_def version_key_def split: option.splits)

lemma members_at_add:
  "members_at (add_to_group g i) r v =
     (if in_group r v i then members_at g r v @ [i] else members_at g r v)"
  by (auto simp: members_at_def add_to_group_def Let_def AList.update_conv' in_group_def
      split: option.splits)

lemma mset_concat_update:
  assumes "F dflt = []"
  assumes "mset (F v) = mset (F (case map_of al k of None \<Rightarrow> dflt | Some m \<Rightarrow> m)) + D"
  shows "mset (concat (map (\<lambda>(k, x). F x) (AList.update k v al)))
         = mset (concat (map (\<lambda>(k, x). F x) al)) + D"
  using assms by (induction al) (auto split: if_splits)

lemma mset_all_members_add:
  "mset (all_members (add_to_group g i)) = mset (all_members g) + {#i#}"
proof -
  let ?bv = "case map_of g (repo i) of None \<Rightarrow> [] | Some m \<Rightarrow> m"
  let ?ms = "case map_of ?bv (version_key i) of None \<Rightarrow> [] | Some l \<Rightarrow> l"
  have inner: "mset (members_of (AList.update (version_key i) (?ms @ [i]) ?bv))
      = mset (members_of ?bv) + {#i#}"
    using mset_concat_update [of "\<lambda>x. x" "[]" "?ms @ [i]" ?bv "version_key i" "{#i#}"]
    by (simp add: members_of_def split_def)
  show ?thesis
    unfolding all_members_def add_to_group_def Let_def
    by (rule mset_concat_update) (simp_all add: members_of_def inner [unfolded members_of_def])
qed

lemma groups_inv_empty: "groups_inv [] []"
  by (simp add: groups_inv_def members_at_def all_members_def)

lemma groups_inv_add:
  assumes "groups_inv g xs"
  shows "groups_inv (add_to_group g i) (xs @ [i])"
proof -
  let ?bv = "case map_of g (repo i) of None \<Rightarrow> [] | Some m \<Rightarrow> m"
  let ?ms = "case map_of ?bv (version_key i) of None \<Rightarrow> [] | Some l \<Rightarrow> l"
  have d: "distinct (map fst g)"
    and grp: "\<And>r grp. map_of g r = Some grp \<Longrightarrow>
               distinct (map fst grp) \<and> (\<forall>v l. map_of grp v = Some l \<longrightarrow> l \<noteq> [])"
    and at: "\<And>r v. members_at g r v = filter (in_group r v) xs"
    and ms: "mset (all_members g) = mset xs"
    using assms by (auto simp: groups_inv_def)
  have bv: "distinct (map fst ?bv) \<and> (\<forall>v l. map_of ?bv v = Some l \<longrightarrow> l \<noteq> [])"
    using grp by (cases "map_of g (repo i)") auto
  have eq: "add_to_group g i
      = AList.update (repo i) (AList.update (version_key i) (?ms @ [i]) ?bv) g"
    by (simp add: add_to_group_def Let_def)
  have 1: "distinct (map fst (add_to_group g i))"
    unfolding eq using d by (rule AList.distinct_update)
  have 2: "distinct (map fst grp1) \<and> (\<forall>v l. map_of grp1 v = Some l \<longrightarrow> l \<noteq> [])"
    if "map_of (add_to_group g i) r = Some grp1" for r grp1
  proof (cases "r = repo i")
    case True
    then have g1: "grp1 = AList.update (version_key i) (?ms @ [i]) ?bv"
      using that unfolding eq by (simp add: AList.update_conv')
    show ?thesis
      unfolding g1 using bv
      by (auto simp: AList.distinct_update AList.update_conv' split: if_splits)
  next
    case False
    then have "map_of g r = Some grp1"
      using that unfolding eq by (simp add: AList.update_conv')
    then show ?thesis using grp by blast
  qed
  have 3: "members_at (add_to_group g i) r v = filter (in_group r v) (xs @ [i])" for r v
    by (simp add: members_at_add at)
  have 4: "mset (all_members (add_to_group g i)) = mset (xs @ [i])"
    by (simp add: mset_all_members_add ms)
  show ?thesis
    unfolding groups_inv_def using 1 2 3 4 by blast
qed

lemma group_loop_inv:
  assumes "group_loop cs ut g ys = Inr g1" "groups_inv g xs"
  shows "groups_inv g1 (xs @ map (with_test_cmd cs ut) ys)"
  using assms
proof (induction ys arbitrary: g xs)
  case Nil
  then show ?case by simp
next
  case (Cons y ys)
  from Cons.prems(1) obtain y1 where y1: "set_test_cmd cs ut y = Inr y1"
    and rest: "group_loop cs ut (add_to_group g y1) ys = Inr g1"
    by (auto split: sum.splits)
  have eq: "y1 = with_test_cmd cs ut y"
    using set_test_cmd_Inr [OF y1] by simp
  have inv: "groups_inv (add_to_group g y1) (xs @ [y1])"
    using Cons.prems(2) by (rule groups_inv_add)
  from Cons.IH [OF rest inv] show ?case
    by (simp add: eq)
qed

lemma has_install_spec_None [simp]: "\<not> has_install_spec cs r None"
  by (simp add: has_install_spec_def)

lemma restrain_versions_filter:
  assumes "restrain_versions cs r grp vs = Inr grp1"
  shows "grp1 = filter (\<lambda>(v, l). v \<notin> set vs \<or> has_install_spec cs r v) grp"
  using assms
proof (induction vs arbitrary: grp)
  case Nil
  then show ?case by simp
next
  case (Cons v vs)
  from Cons.prems obtain specs where specs: "MAP_VERSION_TO_INSTALL cs r = Some specs"
    by (auto split: option.splits)
  have keep: "has_install_spec cs r v
      = (\<not> (case v of None \<Rightarrow> True | Some ver \<Rightarrow> map_of specs ver = None))"
    by (simp add: has_install_spec_def specs split: option.splits)
  show ?case
  proof (cases "has_install_spec cs r v")
    case True
    then have "restrain_versions cs r grp vs = Inr grp1"
      using Cons.prems specs keep by simp
    from Cons.IH [OF this] True show ?thesis
      by (auto intro!: filter_cong)
  next
    case False
    then have "restrain_versions cs r (AList.delete v grp) vs = Inr grp1"
      using Cons.prems specs keep by simp
    from Cons.IH [OF this] False show ?thesis
      by (auto simp: AList.delete_eq intro!: filter_cong)
  qed
qed

lemma custom_restraints_filter:
  assumes "custom_restraints cs g = Inr g1"
  shows "g1 = map (\<lambda>(r, grp). (r, filter (\<lambda>(v, l). has_install_spec cs r v) grp)) g"
  using assms
proof (induction g arbitrary: g1)
  case Nil
  then show ?case by simp
next
  case (Cons p g)
  obtain r grp where p: "p = (r, grp)" by (cases p)
  from Cons.prems p obtain grp2 rest1
    where rv: "restrain_versions cs r (AList.delete None grp)
                 (map fst (AList.delete None grp)) = Inr grp2"
      and rest: "custom_restraints cs g = Inr rest1"
      and g1: "g1 = (r, grp2) # rest1"
    by (auto simp: Let_def split: sum.splits)
  have "grp2 = filter (\<lambda>(v, l). has_install_spec cs r v) grp"
    using restrain_versions_filter [OF rv]
    by (auto simp: AList.delete_eq intro!: filter_cong) (force simp: image_iff)
  then show ?case
    using Cons.IH [OF rest] g1 p by simp
qed

lemma group_task_instances_parts:
  assumes "group_task_instances cs ut task_instances = Inr (insts, g, refs)"
  obtains g0 where "group_loop cs ut [] (sorted_desc task_instances) = Inr g0"
    and "custom_restraints cs g0 = Inr g"
    and "insts = map (with_test_cmd cs ut) (sorted_desc task_instances)"
  using assms
  by (auto simp: group_task_instances_def split: sum.splits)

lemma members_of_filter:
  assumes "\<And>v l i. (v, l) \<in> set grp \<Longrightarrow> i \<in> set l \<Longrightarrow> in_group r v i"
  shows "members_of (filter (\<lambda>(v, l). has_install_spec cs r v) grp)
         = filter (\<lambda>i. has_install_spec cs (repo i) (version_key i)) (members_of grp)"
  using assms
proof (induction grp)
  case Nil
  then show ?case by (simp add: members_of_def)
next
  case (Cons p grp)
  obtain v l where p: "p = (v, l)" by (cases p)
  have hom: "\<And>i. i \<in> set l \<Longrightarrow> repo i = r \<and> version_key i = v"
    using Cons.prems [of v l] p by (simp add: in_group_def)
  have l: "filter (\<lambda>i. has_install_spec cs (repo i) (version_key i)) l
             = (if has_install_spec cs r v then l else [])"
    using hom by (auto simp: filter_empty_conv filter_id_conv)
  have "members_of (filter (\<lambda>(v, l). has_install_spec cs r v) grp)
         = filter (\<lambda>i. has_install_spec cs (repo i) (version_key i)) (members_of grp)"
    using Cons.prems by (intro Cons.IH) auto
  then show ?case
    using l by (simp add: members_of_def p)
qed

lemma groups_inv_distinct:
  assumes inv: "groups_inv g xs" and r: "(r, grp) \<in> set g"
  shows "distinct (map fst grp)"
proof -
  have "map_of g r = Some grp"
    using inv r by (simp add: groups_inv_def)
  then show ?thesis
    using inv by (auto simp: groups_inv_def)
qed

lemma groups_inv_member:
  assumes inv: "groups_inv g xs" and r: "(r, grp) \<in> set g" and v: "(v, l) \<in> set grp"
  shows "l \<noteq> [] \<and> l = filter (in_group r v) xs"
proof -
  have mr: "map_of g r = Some grp"
    using inv r by (simp add: groups_inv_def)
  have d: "distinct (map fst grp)"
    using inv r by (rule groups_inv_distinct)
  have mv: "map_of grp v = Some l"
    using d v by simp
  have ne: "l \<noteq> []"
    using inv mr mv unfolding groups_inv_def by blast
  have "members_at g r v = filter (in_group r v) xs"
    using inv by (simp add: groups_inv_def)
  then show ?thesis
    using ne mr mv by (simp add: members_at_def)
qed

lemma all_members_filter:
  assumes inv: "groups_inv g0 xs"
  shows "all_members (map (\<lambda>(r, grp). (r, filter (\<lambda>(v, l). has_install_spec cs r v) grp)) g0)
         = filter (\<lambda>i. has_install_spec cs (repo i) (version_key i)) (all_members g0)"
proof -
  have hom: "members_of (filter (\<lambda>(v, l). has_install_spec cs r v) grp0)
         = filter (\<lambda>i. has_install_spec cs (repo i) (version_key i)) (members_of grp0)"
    if g0: "(r, grp0) \<in> set g0" for r grp0
  proof (rule members_of_filter)
    fix v l i
    assume vl: "(v, l) \<in> set grp0" and i: "i \<in> set l"
    have "l = filter (in_group r v) xs"
      using groups_inv_member [OF inv g0 vl] by (rule conjunct2)
    then have "i \<in> set (filter (in_group r v) xs)"
      using i by (rule subst)
    then show "in_group r v i"
      by simp
  qed
  have step: "map (\<lambda>p. case (case p of (r, grp) \<Rightarrow>
                              (r, filter (\<lambda>(v, l). has_install_spec cs r v) grp)) of
                         (r, grp) \<Rightarrow> members_of grp) g0
      = map (\<lambda>(r, grp). filter (\<lambda>i. has_install_spec cs (repo i) (version_key i))
                          (members_of grp)) g0"
  proof (rule map_cong [OF refl])
    fix p assume pin: "p \<in> set g0"
    obtain r grp where p: "p = (r, grp)"
      by (cases p)
    have mem: "(r, grp) \<in> set g0"
      using pin p by simp
    show "(case (case p of (r, grp) \<Rightarrow>
                   (r, filter (\<lambda>(v, l). has_install_spec cs r v) grp)) of
             (r, grp) \<Rightarrow> members_of grp)
          = (case p of (r, grp) \<Rightarrow>
               filter (\<lambda>i. has_install_spec cs (repo i) (version_key i)) (members_of grp))"
      unfolding p prod.case by (rule hom [OF mem])
  qed
  show ?thesis
    unfolding all_members_def filter_concat map_map comp_def step
    by (simp add: split_def)
qed

text \<open>
  Claim C5. Whenever the constructor's grouping returns (no table look-up raises), with the
  instances \<open>insts\<close> (the input, sorted, each with its test command stored) and the groups
  \<open>g\<close> left by the custom restraints: \<open>insts\<close> is a rearrangement of the input; no
  repository and, within a repository, no version occurs twice as a key; the group stored
  under repository \<open>r\<close> and version \<open>v\<close> is not empty, consists of exactly the instances
  of that repository and version, in order, and \<open>v\<close> is a version with an install
  specification for \<open>r\<close> (so it is not \<^verbatim>\<open>None\<close>); the members of all groups together are, each
  as often as it occurs, the instances whose version is not null and has an install
  specification; and two groups under different keys share no instance.
\<close>

theorem grouping_partitions_filtered_input:
  assumes "group_task_instances cs ut task_instances = Inr (insts, g, refs)"
  shows "mset insts = mset (map (with_test_cmd cs ut) task_instances)
     \<and> distinct (map fst g)
     \<and> (\<forall>(r, grp) \<in> set g.
           distinct (map fst grp)
           \<and> (\<forall>(v, l) \<in> set grp.
                 l \<noteq> [] \<and> l = filter (in_group r v) insts \<and> has_install_spec cs r v))
     \<and> mset (all_members g)
         = mset (filter (\<lambda>i. has_install_spec cs (repo i) (version_key i)) insts)
     \<and> (\<forall>(r, grp) \<in> set g. \<forall>(v, l) \<in> set grp. \<forall>(r1, grp1) \<in> set g. \<forall>(v1, l1) \<in> set grp1.
           (r, v) \<noteq> (r1, v1) \<longrightarrow> set l \<inter> set l1 = {})"
proof -
  from assms obtain g0
    where loop: "group_loop cs ut [] (sorted_desc task_instances) = Inr g0"
      and restr: "custom_restraints cs g0 = Inr g"
      and insts: "insts = map (with_test_cmd cs ut) (sorted_desc task_instances)"
    by (rule group_task_instances_parts)
  have inv: "groups_inv g0 insts"
    using group_loop_inv [OF loop groups_inv_empty] insts by simp
  have g: "g = map (\<lambda>(r, grp). (r, filter (\<lambda>(v, l). has_install_spec cs r v) grp)) g0"
    using restr by (rule custom_restraints_filter)
  have 1: "mset insts = mset (map (with_test_cmd cs ut) task_instances)"
    by (simp add: insts sorted_desc_def)
  have 2: "distinct (map fst g)"
    using inv by (simp add: g groups_inv_def split_def comp_def)
  have mem: "l \<noteq> [] \<and> l = filter (in_group r v) insts \<and> has_install_spec cs r v"
    and dist: "distinct (map fst grp)"
    if rg: "(r, grp) \<in> set g" and vl: "(v, l) \<in> set grp" for r grp v l
  proof -
    from rg obtain grp0 where g0: "(r, grp0) \<in> set g0"
      and grp: "grp = filter (\<lambda>(v, l). has_install_spec cs r v) grp0"
      by (auto simp: g)
    have vl0: "(v, l) \<in> set grp0" and has: "has_install_spec cs r v"
      using vl by (auto simp: grp)
    show "l \<noteq> [] \<and> l = filter (in_group r v) insts \<and> has_install_spec cs r v"
      using groups_inv_member [OF inv g0 vl0] has by blast
    show "distinct (map fst grp)"
      using groups_inv_distinct [OF inv g0] by (simp add: grp distinct_map_filter)
  qed
  have dist0: "distinct (map fst grp)" if rg: "(r, grp) \<in> set g" for r grp
  proof -
    from rg obtain grp0 where g0: "(r, grp0) \<in> set g0"
      and grp: "grp = filter (\<lambda>(v, l). has_install_spec cs r v) grp0"
      by (auto simp: g)
    show ?thesis
      using groups_inv_distinct [OF inv g0] by (simp add: grp distinct_map_filter)
  qed
  have 3: "\<forall>(r, grp) \<in> set g.
           distinct (map fst grp)
           \<and> (\<forall>(v, l) \<in> set grp.
                 l \<noteq> [] \<and> l = filter (in_group r v) insts \<and> has_install_spec cs r v)"
    using mem dist0 by blast
  have 4: "mset (all_members g)
         = mset (filter (\<lambda>i. has_install_spec cs (repo i) (version_key i)) insts)"
  proof -
    have "all_members g
        = filter (\<lambda>i. has_install_spec cs (repo i) (version_key i)) (all_members g0)"
      unfolding g using inv by (rule all_members_filter)
    moreover have "mset (all_members g0) = mset insts"
      using inv by (simp add: groups_inv_def)
    ultimately show ?thesis by simp
  qed
  have disj: "set l \<inter> set l1 = {}"
    if "(r, grp) \<in> set g" "(v, l) \<in> set grp" "(r1, grp1) \<in> set g" "(v1, l1) \<in> set grp1"
      "(r, v) \<noteq> (r1, v1)" for r grp v l r1 grp1 v1 l1
  proof -
    have "l = filter (in_group r v) insts" "l1 = filter (in_group r1 v1) insts"
      using mem that by blast+
    then show ?thesis
      using that(5) by (auto simp: in_group_def)
  qed
  have 5: "\<forall>(r, grp) \<in> set g. \<forall>(v, l) \<in> set grp. \<forall>(r1, grp1) \<in> set g. \<forall>(v1, l1) \<in> set grp1.
           (r, v) \<noteq> (r1, v1) \<longrightarrow> set l \<inter> set l1 = {}"
    using disj by blast
  show ?thesis
    using 1 2 3 4 5 by blast
qed

lemmas grouping_eval = group_task_instances_def sorted_desc_def set_test_cmd_def
  with_test_cmd_def add_to_group_def version_key_def Let_def ex_tasks_def ex_task_def
  ex_tables_def ex_constants_def ex_utils_def make_setup_refs_def AList.delete_eq

lemma ex_grouping:
  "\<exists>refs. group_task_instances ex_tables ex_utils ex_tasks =
     Inr (map (with_test_cmd ex_tables ex_utils) (sorted_desc ex_tasks), ex_groups, refs)"
  by (simp add: grouping_eval ex_groups_def)

theorem grouping_partitions_filtered_input_witness:
  "fst (snd (projr (group_task_instances ex_tables ex_utils ex_tasks))) = ex_groups
   \<and> map instance_id (all_members ex_groups) = [''i5'', ''i1'', ''i3'']
   \<and> map instance_id
       (filter (\<lambda>i. has_install_spec ex_tables (repo i) (version_key i))
          (map (with_test_cmd ex_tables ex_utils) (sorted_desc ex_tasks)))
     = [''i5'', ''i3'', ''i1'']
   \<and> mset (all_members ex_groups)
     = mset (filter (\<lambda>i. has_install_spec ex_tables (repo i) (version_key i))
               (map (with_test_cmd ex_tables ex_utils) (sorted_desc ex_tasks)))"
proof -
  from ex_grouping obtain refs
    where eq: "group_task_instances ex_tables ex_utils ex_tasks =
      Inr (map (with_test_cmd ex_tables ex_utils) (sorted_desc ex_tasks), ex_groups, refs)"
    by blast
  have p: "fst (snd (projr (group_task_instances ex_tables ex_utils ex_tasks))) = ex_groups"
    by (simp add: eq)
  have a: "map instance_id (all_members ex_groups) = [''i5'', ''i1'', ''i3'']"
    by (simp add: ex_groups_def all_members_def members_of_def with_test_cmd_def
        set_test_cmd_def ex_task_def ex_tables_def)
  have b: "map instance_id
       (filter (\<lambda>i. has_install_spec ex_tables (repo i) (version_key i))
          (map (with_test_cmd ex_tables ex_utils) (sorted_desc ex_tasks)))
     = [''i5'', ''i3'', ''i1'']"
    by (simp add: has_install_spec_def sorted_desc_def with_test_cmd_def set_test_cmd_def
        version_key_def ex_tasks_def ex_task_def ex_tables_def)
  from grouping_partitions_filtered_input [OF eq] p a b
  show ?thesis by blast
qed

subsection \<open>Teardown\<close>

lemmas testbed_eval = TestbedContextManager_init_def TestbedContextManager_enter_def
  TestbedContextManager_exit_def path_or_temp_def TemporaryDirectory_def cleanup_def below_def
  os_path_abspath_def os_path_exists_def os_makedirs_def group_task_instances_def
  sorted_desc_def make_setup_refs_def and_then_def resolve_def os_path_join_def
  startswith_def endswith_def Let_def

text \<open>
  Claim C4. The claim has the teardown remove every temporary tool directory the harness
  made, the one for conda and the one for opam. Built with no tool path and no testbed
  path, the testbed makes three temporary directories: for conda, for opam and for the
  working root. After \<^verbatim>\<open>__enter__\<close> and \<^verbatim>\<open>__exit__\<close> the conda directory and the working root
  are gone and the opam directory is still there: \<^verbatim>\<open>__exit__\<close> cleans up
  \<^verbatim>\<open>temp_dir_work\<close> and \<^verbatim>\<open>temp_dir_conda\<close> and never \<^verbatim>\<open>temp_dir_opam\<close>.
\<close>

theorem exit_leaves_opam_temp_dir:
  "(case TestbedContextManager_init ex_host ex_tables ex_utils [] ''/logs'' None None None False
           None None ex_world of
      (Inr self, w1) \<Rightarrow>
        (case TestbedContextManager_enter ex_host ex_tables ex_utils self w1 of
           (Inr self1, w2) \<Rightarrow>
             (case TestbedContextManager_exit ex_host self1 w2 of
                (Inr u, w3) \<Rightarrow>
                  tb_temp_dir_conda self1 = Some ''/tmp/a''
                  \<and> tb_temp_dir_opam self1 = Some ''/tmp/b''
                  \<and> tb_temp_dir_work self1 = Some ''/tmp/c''
                  \<and> {''/tmp/a'', ''/tmp/b'', ''/tmp/c''} \<subseteq> dirs w2
                  \<and> ''/tmp/a'' \<notin> dirs w3 \<and> ''/tmp/c'' \<notin> dirs w3
                  \<and> ''/tmp/b'' \<in> dirs w3
              | (Inl e, w3) \<Rightarrow> False)
         | (Inl e, w2) \<Rightarrow> False)
    | (Inl e, w1) \<Rightarrow> False)"
  by (simp add: testbed_eval ex_host_def os_exiting_def ex_world_def)

subsection \<open>Provisioning\<close>












end
